theory Spec2Isabelle
  imports Complex_Main
begin

section \<open>Errors (src/errors/index.ts)\<close>

text \<open>
  The SDK's error classes. Each constructor keeps the fields the code reads back:
  the message, \<open>RateLimitError.retryAfter\<close> (seconds, optional),
  \<open>ProviderError.provider\<close> and \<open>ProviderError.statusCode\<close> (both optional), and the
  context payload of a \<open>ValidationError\<close> as a list of (key, value) pairs.
  \<open>OtherError\<close> stands for any thrown value that is not an \<open>SDKError\<close>.
  JavaScript numbers are modelled as rationals (exact arithmetic, no rounding).
\<close>

datatype sdk_error =
    NetworkError string
  | ValidationError string "(string \<times> string) list"
  | RateLimitError string "rat option"
  | ProviderError string "string option" "int option"
  | ConfigurationError string
  | OtherError string

section \<open>Retry with exponential backoff (src/utils/retry.ts)\<close>

record RetryConfig =
  maxRetries :: int
  initialDelay :: rat
  maxDelay :: rat
  backoffMultiplier :: rat
  retryableStatusCodes :: "int list"

text \<open>The caller's partial configuration: every field optional.\<close>

record RetryConfigInput =
  maxRetries_in :: "int option"
  initialDelay_in :: "rat option"
  maxDelay_in :: "rat option"
  backoffMultiplier_in :: "rat option"
  retryableStatusCodes_in :: "int list option"

definition DEFAULT_RETRY_CONFIG :: RetryConfig where
  "DEFAULT_RETRY_CONFIG =
     \<lparr> maxRetries = 3, initialDelay = 1000, maxDelay = 10000, backoffMultiplier = 2,
       retryableStatusCodes = [408, 429, 500, 502, 503, 504] \<rparr>"

definition no_retry_config :: RetryConfigInput where
  "no_retry_config =
     \<lparr> maxRetries_in = None, initialDelay_in = None, maxDelay_in = None,
       backoffMultiplier_in = None, retryableStatusCodes_in = None \<rparr>"

text \<open>\<open>{ ...DEFAULT_RETRY_CONFIG, ...config }\<close>: a field the caller gives wins over the default.\<close>

definition mergeRetryConfig :: "RetryConfigInput \<Rightarrow> RetryConfig" where
  "mergeRetryConfig c =
     \<lparr> maxRetries = (case maxRetries_in c of None \<Rightarrow> maxRetries DEFAULT_RETRY_CONFIG | Some v \<Rightarrow> v),
       initialDelay = (case initialDelay_in c of None \<Rightarrow> initialDelay DEFAULT_RETRY_CONFIG | Some v \<Rightarrow> v),
       maxDelay = (case maxDelay_in c of None \<Rightarrow> maxDelay DEFAULT_RETRY_CONFIG | Some v \<Rightarrow> v),
       backoffMultiplier =
         (case backoffMultiplier_in c of None \<Rightarrow> backoffMultiplier DEFAULT_RETRY_CONFIG | Some v \<Rightarrow> v),
       retryableStatusCodes =
         (case retryableStatusCodes_in c of None \<Rightarrow> retryableStatusCodes DEFAULT_RETRY_CONFIG
          | Some v \<Rightarrow> v) \<rparr>"

text \<open>\<open>calculateDelay(attempt, config)\<close>, attempt 0-indexed.\<close>

definition calculateDelay :: "nat \<Rightarrow> RetryConfig \<Rightarrow> rat" where
  "calculateDelay attempt config =
     (let delay = initialDelay config * backoffMultiplier config ^ attempt
      in min delay (maxDelay config))"

text \<open>
  \<open>isRetryableError(error, config)\<close>: only the two \<open>instanceof\<close> tests; the configuration
  is never consulted and every other error falls through to \<open>return false\<close>.
\<close>

fun isRetryableError :: "sdk_error \<Rightarrow> RetryConfig \<Rightarrow> bool" where
  "isRetryableError (NetworkError m) config = True"
| "isRetryableError (RateLimitError m r) config = True"
| "isRetryableError e config = False"

text \<open>
  The delay chosen after a retryable failure at a given attempt: the computed backoff,
  replaced by \<open>retryAfter * 1000\<close> when the error is a \<open>RateLimitError\<close> whose
  \<open>retryAfter\<close> is truthy (present and not zero).
\<close>

fun retryDelay :: "sdk_error \<Rightarrow> nat \<Rightarrow> RetryConfig \<Rightarrow> rat" where
  "retryDelay (RateLimitError m (Some r)) attempt config =
     (if r \<noteq> 0 then r * 1000 else calculateDelay attempt config)"
| "retryDelay e attempt config = calculateDelay attempt config"

text \<open>
  What one call of \<open>retryWithBackoff\<close> does: its outcome (\<open>Inr\<close> the value returned,
  \<open>Inl\<close> the value thrown, \<open>Inl None\<close> being \<open>throw undefined\<close>), how many times it
  invoked the operation, and the delays it waited, in order.
\<close>

record 'a retry_run =
  outcome :: "sdk_error option + 'a"
  calls :: nat
  waits :: "rat list"

text \<open>
  The operation \<open>fn\<close> is given by the outcome of each of its invocations: \<open>fn i\<close> is
  what the invocation after \<open>i\<close> earlier ones returns (\<open>Inr\<close>) or throws (\<open>Inl\<close>).
  Every loop iteration invokes \<open>fn\<close> once and either leaves the loop or increments
  \<open>attempt\<close>, so the invocation made at \<open>attempt\<close> is invocation number \<open>attempt\<close>.
\<close>

function retryLoop ::
  "RetryConfig \<Rightarrow> (nat \<Rightarrow> sdk_error + 'a) \<Rightarrow> nat \<Rightarrow> sdk_error option \<Rightarrow> rat list \<Rightarrow> 'a retry_run"
where
  "retryLoop config fn attempt lastError delays =
     (if int attempt \<le> maxRetries config then
        (case fn attempt of
           Inr v \<Rightarrow> \<lparr> outcome = Inr v, calls = attempt + 1, waits = delays \<rparr>
         | Inl e \<Rightarrow>
             if \<not> isRetryableError e config then
               \<lparr> outcome = Inl (Some e), calls = attempt + 1, waits = delays \<rparr>
             else if int attempt \<ge> maxRetries config then
               \<lparr> outcome = Inl (Some e), calls = attempt + 1, waits = delays \<rparr>
             else
               retryLoop config fn (attempt + 1) (Some e) (delays @ [retryDelay e attempt config]))
      else \<lparr> outcome = Inl lastError, calls = attempt, waits = delays \<rparr>)"
  by pat_completeness auto
termination
  by (relation "measure (\<lambda>(config, fn, attempt, lastError, delays). nat (maxRetries config + 1 - int attempt))")
     auto

declare retryLoop.simps [simp del]

definition retryWithBackoff :: "(nat \<Rightarrow> sdk_error + 'a) \<Rightarrow> RetryConfigInput \<Rightarrow> 'a retry_run" where
  "retryWithBackoff fn config = retryLoop (mergeRetryConfig config) fn 0 None []"

text \<open>The configuration both providers pass: \<open>{ maxRetries: 3, retryableStatusCodes: [429, 500, 502, 503, 504] }\<close>.\<close>

definition provider_retry_config :: RetryConfigInput where
  "provider_retry_config =
     no_retry_config \<lparr> maxRetries_in := Some 3,
                       retryableStatusCodes_in := Some [429, 500, 502, 503, 504] \<rparr>"

text \<open>An operation that throws the same error at every invocation.\<close>

definition always_fails :: "sdk_error \<Rightarrow> nat \<Rightarrow> sdk_error + unit" where
  "always_fails e i = Inl e"

text \<open>
  An operation whose first invocation times out and whose later invocations all meet an
  HTTP 502 response, with the errors \<open>httpRequest\<close> throws in the two cases.
\<close>

fun timeout_then_502 :: "nat \<Rightarrow> sdk_error + unit" where
  "timeout_then_502 0 = Inl (NetworkError ''Request timeout after 30000ms'')"
| "timeout_then_502 (Suc i) = Inl (ProviderError ''HTTP 502: Bad Gateway'' None (Some 502))"

section \<open>JavaScript numbers with their special values\<close>

text \<open>
  The rate limiter's constructor puts \<open>Infinity\<close> into its fields, so its arithmetic is
  modelled on numbers extended with the IEEE 754 special values: a finite value (a
  rational, without rounding), the two infinities, and \<open>NaN\<close>. The operations below are
  the ones the limiter uses, with JavaScript's rules for the special values:
  \<open>0 * Infinity\<close> and \<open>Infinity - Infinity\<close> are \<open>NaN\<close>, arithmetic on \<open>NaN\<close> is \<open>NaN\<close>,
  \<open>Math.min\<close> and \<open>Math.max\<close> return \<open>NaN\<close> when an argument is \<open>NaN\<close>, and every
  comparison with \<open>NaN\<close> is false.
\<close>

datatype jsnum = Fin rat | PosInf | NegInf | NaN

fun js_neg :: "jsnum \<Rightarrow> jsnum" where
  "js_neg (Fin a) = Fin (- a)"
| "js_neg PosInf = NegInf"
| "js_neg NegInf = PosInf"
| "js_neg NaN = NaN"

fun js_add :: "jsnum \<Rightarrow> jsnum \<Rightarrow> jsnum" where
  "js_add (Fin a) (Fin b) = Fin (a + b)"
| "js_add NaN y = NaN"
| "js_add x NaN = NaN"
| "js_add PosInf NegInf = NaN"
| "js_add NegInf PosInf = NaN"
| "js_add PosInf y = PosInf"
| "js_add x PosInf = PosInf"
| "js_add NegInf y = NegInf"
| "js_add x NegInf = NegInf"

definition js_sub :: "jsnum \<Rightarrow> jsnum \<Rightarrow> jsnum" where
  "js_sub x y = js_add x (js_neg y)"

fun js_mul :: "jsnum \<Rightarrow> jsnum \<Rightarrow> jsnum" where
  "js_mul (Fin a) (Fin b) = Fin (a * b)"
| "js_mul NaN y = NaN"
| "js_mul x NaN = NaN"
| "js_mul (Fin a) PosInf = (if a = 0 then NaN else if 0 < a then PosInf else NegInf)"
| "js_mul (Fin a) NegInf = (if a = 0 then NaN else if 0 < a then NegInf else PosInf)"
| "js_mul PosInf (Fin b) = (if b = 0 then NaN else if 0 < b then PosInf else NegInf)"
| "js_mul NegInf (Fin b) = (if b = 0 then NaN else if 0 < b then NegInf else PosInf)"
| "js_mul PosInf PosInf = PosInf"
| "js_mul NegInf NegInf = PosInf"
| "js_mul PosInf NegInf = NegInf"
| "js_mul NegInf PosInf = NegInf"

text \<open>\<open>x <= y\<close> on numbers that are not \<open>NaN\<close>; false when either is \<open>NaN\<close>.\<close>

fun js_le :: "jsnum \<Rightarrow> jsnum \<Rightarrow> bool" where
  "js_le (Fin a) (Fin b) = (a \<le> b)"
| "js_le NaN y = False"
| "js_le x NaN = False"
| "js_le NegInf y = True"
| "js_le x PosInf = True"
| "js_le x NegInf = False"
| "js_le PosInf y = False"

definition js_ge :: "jsnum \<Rightarrow> jsnum \<Rightarrow> bool" where
  "js_ge x y = js_le y x"

definition js_lt :: "jsnum \<Rightarrow> jsnum \<Rightarrow> bool" where
  "js_lt x y = (x \<noteq> NaN \<and> y \<noteq> NaN \<and> \<not> js_le y x)"

definition js_min :: "jsnum \<Rightarrow> jsnum \<Rightarrow> jsnum" where
  "js_min x y = (if x = NaN \<or> y = NaN then NaN else if js_le x y then x else y)"

definition js_max :: "jsnum \<Rightarrow> jsnum \<Rightarrow> jsnum" where
  "js_max x y = (if x = NaN \<or> y = NaN then NaN else if js_le x y then y else x)"

text \<open>
  \<open>v || Infinity\<close> for an optional number \<open>v\<close>: \<open>undefined\<close>, \<open>0\<close> and \<open>NaN\<close> are falsy.
\<close>

definition or_Infinity :: "jsnum option \<Rightarrow> jsnum" where
  "or_Infinity v =
     (case v of None \<Rightarrow> PosInf
      | Some x \<Rightarrow> if x = Fin 0 \<or> x = NaN then PosInf else x)"

section \<open>Rate limiter (src/utils/rate-limiter.ts)\<close>

record RateLimiterConfig =
  requestsPerSecond_cfg :: "jsnum option"
  requestsPerMinute_cfg :: "jsnum option"
  enabled_cfg :: "bool option"

text \<open>
  The limiter's fields. Timestamps are \<open>Date.now()\<close> values, integers in milliseconds.
  The wait queue holds the identifiers of the pending \<open>acquire\<close> calls, oldest first;
  \<open>resolved\<close> and \<open>rejected\<close> record, in order, the calls whose promise was resolved or
  rejected. \<open>iterations\<close> is the loop counter of the suspended \<open>processQueue\<close>
  activation.
\<close>

record RateLimiter =
  requestsPerSecond :: jsnum
  requestsPerMinute :: jsnum
  enabled :: bool
  secondTokens :: jsnum
  secondLastRefill :: int
  minuteTokens :: jsnum
  minuteLastRefill :: int
  queue :: "nat list"
  processing :: bool
  iterations :: nat
  resolved :: "nat list"
  rejected :: "nat list"

text \<open>The constructor, run when \<open>Date.now()\<close> is \<open>now\<close>.\<close>

definition RateLimiter_new :: "RateLimiterConfig \<Rightarrow> int \<Rightarrow> RateLimiter" where
  "RateLimiter_new config now =
     \<lparr> requestsPerSecond = or_Infinity (requestsPerSecond_cfg config),
       requestsPerMinute = or_Infinity (requestsPerMinute_cfg config),
       enabled = (enabled_cfg config \<noteq> Some False),
       secondTokens = or_Infinity (requestsPerSecond_cfg config),
       secondLastRefill = now,
       minuteTokens = or_Infinity (requestsPerMinute_cfg config),
       minuteLastRefill = now,
       queue = [], processing = False, iterations = 0, resolved = [], rejected = [] \<rparr>"

text \<open>\<open>refillTokens()\<close>, run when \<open>Date.now()\<close> is \<open>now\<close>.\<close>

definition refillTokens :: "int \<Rightarrow> RateLimiter \<Rightarrow> RateLimiter" where
  "refillTokens now s =
     (let secondsElapsed = (of_int (now - secondLastRefill s) :: rat) / 1000;
          s1 = (if secondsElapsed \<ge> 1
                then s \<lparr> secondTokens := requestsPerSecond s, secondLastRefill := now \<rparr>
                else let tokensToAdd = js_mul (Fin secondsElapsed) (requestsPerSecond s)
                     in s \<lparr> secondTokens :=
                              js_min (requestsPerSecond s) (js_add (secondTokens s) tokensToAdd) \<rparr>);
          minutesElapsed = (of_int (now - minuteLastRefill s1) :: rat) / 60000
      in if minutesElapsed \<ge> 1
         then s1 \<lparr> minuteTokens := requestsPerMinute s1, minuteLastRefill := now \<rparr>
         else let tokensToAdd = js_mul (Fin minutesElapsed) (requestsPerMinute s1)
              in s1 \<lparr> minuteTokens :=
                        js_min (requestsPerMinute s1) (js_add (minuteTokens s1) tokensToAdd) \<rparr>)"

definition canMakeRequest :: "int \<Rightarrow> RateLimiter \<Rightarrow> bool \<times> RateLimiter" where
  "canMakeRequest now s =
     (if \<not> enabled s then (True, s)
      else let s' = refillTokens now s
           in (js_ge (secondTokens s') (Fin 1) \<and> js_ge (minuteTokens s') (Fin 1), s'))"

definition consumeTokens :: "RateLimiter \<Rightarrow> RateLimiter" where
  "consumeTokens s =
     (if \<not> enabled s then s
      else s \<lparr> secondTokens := js_max (Fin 0) (js_sub (secondTokens s) (Fin 1)),
               minuteTokens := js_max (Fin 0) (js_sub (minuteTokens s) (Fin 1)) \<rparr>)"

text \<open>
  The limiter's own \<open>calculateDelay()\<close>; its two readings of \<open>Date.now()\<close> (one inside
  \<open>refillTokens\<close>) are taken to return the same value \<open>now\<close>. The delays are computed
  from timestamps, so they are finite.
\<close>

definition RateLimiter_calculateDelay :: "int \<Rightarrow> RateLimiter \<Rightarrow> rat \<times> RateLimiter" where
  "RateLimiter_calculateDelay now s =
     (if \<not> enabled s then (0, s)
      else
        let s1 = refillTokens now s;
            maxDelay0 = (0 :: rat);
            maxDelay1 =
              (if js_lt (secondTokens s1) (Fin 1)
               then let secondsUntilRefill = 1 - (of_int (now - secondLastRefill s1) :: rat) / 1000;
                        delay = max 0 (secondsUntilRefill * 1000)
                    in max maxDelay0 delay
               else maxDelay0);
            maxDelay2 =
              (if js_lt (minuteTokens s1) (Fin 1)
               then let minutesUntilRefill = 1 - (of_int (now - minuteLastRefill s1) :: rat) / 60000;
                        delay = max 0 (minutesUntilRefill * 60000)
                    in max maxDelay1 delay
               else maxDelay1)
        in if maxDelay2 = 0 \<and> (js_lt (secondTokens s1) (Fin 1) \<or> js_lt (minuteTokens s1) (Fin 1))
           then (10, s1)
           else (of_int \<lceil>maxDelay2\<rceil>, s1))"

text \<open>
  \<open>tryAcquire()\<close>: the result and the limiter afterwards.
\<close>

definition tryAcquire :: "int \<Rightarrow> RateLimiter \<Rightarrow> bool \<times> RateLimiter" where
  "tryAcquire now s =
     (if \<not> enabled s then (True, s)
      else case canMakeRequest now s of
             (ok, s') \<Rightarrow> if ok then (True, consumeTokens s') else (False, s'))"

text \<open>
  \<open>processQueue()\<close> runs synchronously until its first \<open>await\<close>. \<open>processLoop\<close> is that
  synchronous stretch of the \<open>while\<close> loop, on the loop counter \<open>its\<close> and the queue \<open>q\<close>
  as they stand: it admits waiters from the head of the queue while
  \<open>canMakeRequest()\<close> holds, and stops either suspended on the timer (\<open>Some delay\<close>; the
  counter and the queue are kept in the state for the activation to resume) or finished
  (\<open>None\<close>): the queue is empty or the counter reached 1000, \<open>processing\<close> is cleared and,
  at 1000 iterations with waiters left, all of them are rejected.
\<close>

definition finishQueue :: "nat \<Rightarrow> nat list \<Rightarrow> RateLimiter \<Rightarrow> RateLimiter" where
  "finishQueue its q s =
     (if its \<ge> 1000 \<and> q \<noteq> []
      then s \<lparr> processing := False, iterations := its, queue := [], rejected := rejected s @ q \<rparr>
      else s \<lparr> processing := False, iterations := its, queue := q \<rparr>)"

fun processLoop :: "int \<Rightarrow> nat \<Rightarrow> nat list \<Rightarrow> RateLimiter \<Rightarrow> RateLimiter \<times> rat option" where
  "processLoop now its [] s = (finishQueue its [] s, None)"
| "processLoop now its (w # q) s =
     (if its < 1000 then
        (case canMakeRequest now s of
           (ok, s2) \<Rightarrow>
             if ok then processLoop now (its + 1) q (consumeTokens s2 \<lparr> resolved := resolved s2 @ [w] \<rparr>)
             else (case RateLimiter_calculateDelay now s2 of
                     (d, s3) \<Rightarrow> (s3 \<lparr> queue := w # q, iterations := its + 1 \<rparr>, Some (max d 10))))
      else (finishQueue its (w # q) s, None))"

definition processQueue :: "int \<Rightarrow> RateLimiter \<Rightarrow> RateLimiter \<times> rat option" where
  "processQueue now s =
     (if processing s \<or> queue s = [] then (s, None)
      else processLoop now 0 (queue s) (s \<lparr> processing := True \<rparr>))"

text \<open>The timer of a suspended activation fires: the loop goes on where it stopped.\<close>

definition resumeQueue :: "int \<Rightarrow> RateLimiter \<Rightarrow> RateLimiter \<times> rat option" where
  "resumeQueue now s =
     (if processing s then processLoop now (iterations s) (queue s) s else (s, None))"

text \<open>\<open>acquire()\<close> by the caller \<open>w\<close>, up to the first suspension.\<close>

definition acquire :: "int \<Rightarrow> nat \<Rightarrow> RateLimiter \<Rightarrow> RateLimiter" where
  "acquire now w s =
     (if \<not> enabled s then s \<lparr> resolved := resolved s @ [w] \<rparr>
      else fst (processQueue now (s \<lparr> queue := queue s @ [w] \<rparr>)))"

text \<open>
  A history of the limiter: each step lets some milliseconds pass (\<open>Date.now()\<close> never
  goes back) and then runs one operation.
\<close>

datatype rl_op = Acquire nat | Resume | TryAcquire | RefillTokens | ConsumeTokens

fun apply_op :: "int \<Rightarrow> rl_op \<Rightarrow> RateLimiter \<Rightarrow> RateLimiter" where
  "apply_op now (Acquire w) s = acquire now w s"
| "apply_op now Resume s = fst (resumeQueue now s)"
| "apply_op now TryAcquire s = snd (tryAcquire now s)"
| "apply_op now RefillTokens s = refillTokens now s"
| "apply_op now ConsumeTokens s = consumeTokens s"

fun run_ops :: "int \<Rightarrow> RateLimiter \<Rightarrow> (nat \<times> rl_op) list \<Rightarrow> RateLimiter" where
  "run_ops now s [] = s"
| "run_ops now s ((d, op) # rest) = run_ops (now + int d) (apply_op (now + int d) op s) rest"

text \<open>\<open>0 <= tokens <= capacity\<close> for both buckets, with JavaScript's comparisons.\<close>

definition tokens_in_range :: "RateLimiter \<Rightarrow> bool" where
  "tokens_in_range s =
     (js_le (Fin 0) (secondTokens s) \<and> js_le (secondTokens s) (requestsPerSecond s) \<and>
      js_le (Fin 0) (minuteTokens s) \<and> js_le (minuteTokens s) (requestsPerMinute s))"

text \<open>\<open>n\<close> calls of \<open>tryAcquire()\<close> in a row, all made when \<open>Date.now()\<close> is \<open>now\<close>.\<close>

fun tryAcquire_times :: "nat \<Rightarrow> int \<Rightarrow> RateLimiter \<Rightarrow> bool list \<times> RateLimiter" where
  "tryAcquire_times 0 now s = ([], s)"
| "tryAcquire_times (Suc n) now s =
     (case tryAcquire now s of
        (ok, s') \<Rightarrow> (case tryAcquire_times n now s' of (oks, s'') \<Rightarrow> (ok # oks, s'')))"

text \<open>The limiter the Ethereum provider constructs, and a limiter constructed without limits.\<close>

definition ethereum_limiter_config :: RateLimiterConfig where
  "ethereum_limiter_config =
     \<lparr> requestsPerSecond_cfg = Some (Fin 4), requestsPerMinute_cfg = Some (Fin 300),
       enabled_cfg = Some True \<rparr>"

definition empty_limiter_config :: RateLimiterConfig where
  "empty_limiter_config =
     \<lparr> requestsPerSecond_cfg = None, requestsPerMinute_cfg = None, enabled_cfg = None \<rparr>"

text \<open>
  The state of a limiter whose two capacities are the finite numbers \<open>a\<close> and \<open>m\<close>, seen
  when \<open>Date.now()\<close> is \<open>now\<close>: both token counts are finite and within their capacity,
  and no refill timestamp lies in the future.
\<close>

definition finite_limiter :: "rat \<Rightarrow> rat \<Rightarrow> int \<Rightarrow> RateLimiter \<Rightarrow> bool" where
  "finite_limiter a m now s =
     (requestsPerSecond s = Fin a \<and> requestsPerMinute s = Fin m \<and>
      (case secondTokens s of Fin t \<Rightarrow> 0 \<le> t \<and> t \<le> a | _ \<Rightarrow> False) \<and>
      (case minuteTokens s of Fin u \<Rightarrow> 0 \<le> u \<and> u \<le> m | _ \<Rightarrow> False) \<and>
      secondLastRefill s \<le> now \<and> minuteLastRefill s \<le> now)"

text \<open>
  The state during a burst of calls made at the very instant \<open>now\<close> of the last refill
  timestamps, on an enabled limiter with finite capacities \<open>a\<close> and \<open>m\<close>: \<open>j\<close> whole
  tokens are left in the short window and \<open>u\<close>, at least as many, in the long one.
\<close>

definition burst_state :: "rat \<Rightarrow> rat \<Rightarrow> int \<Rightarrow> nat \<Rightarrow> rat \<Rightarrow> RateLimiter \<Rightarrow> bool" where
  "burst_state a m now j u s =
     (enabled s \<and> requestsPerSecond s = Fin a \<and> requestsPerMinute s = Fin m \<and>
      secondTokens s = Fin (of_nat j) \<and> minuteTokens s = Fin u \<and>
      of_nat j \<le> a \<and> of_nat j \<le> u \<and> u \<le> m \<and>
      secondLastRefill s = now \<and> minuteLastRefill s = now)"

section \<open>Networks and address validation (src/types/network.ts, src/utils/validation.ts)\<close>

datatype Network = ETHEREUM_MAINNET | SOLANA_MAINNET

text \<open>The string value of each member of the \<open>Network\<close> enum.\<close>

fun Network_value :: "Network \<Rightarrow> string" where
  "Network_value ETHEREUM_MAINNET = ''ethereum-mainnet''"
| "Network_value SOLANA_MAINNET = ''solana-mainnet''"

text \<open>
  Strings are lists of characters. The two regular expressions are anchored at both ends
  and have no flags: \<open>/^0x[a-fA-F0-9]{40}$/\<close> and \<open>/^[1-9A-HJ-NP-Za-km-z]{32,44}$/\<close>.
\<close>

definition isHexChar :: "char \<Rightarrow> bool" where
  "isHexChar c = (c \<in> set ''0123456789abcdefABCDEF'')"

definition isBase58Char :: "char \<Rightarrow> bool" where
  "isBase58Char c = (c \<in> set ''123456789ABCDEFGHJKLMNPQRSTUVWXYZabcdefghijkmnopqrstuvwxyz'')"

definition isValidEthereumAddress :: "string \<Rightarrow> bool" where
  "isValidEthereumAddress address =
     (if address = [] then False
      else take 2 address = ''0x'' \<and> length (drop 2 address) = 40 \<and>
           list_all isHexChar (drop 2 address))"

definition isValidSolanaPublicKey :: "string \<Rightarrow> bool" where
  "isValidSolanaPublicKey publicKey =
     (if publicKey = [] then False
      else 32 \<le> length publicKey \<and> length publicKey \<le> 44 \<and> list_all isBase58Char publicKey)"

definition detectNetwork :: "string \<Rightarrow> Network option" where
  "detectNetwork address =
     (if isValidEthereumAddress address then Some ETHEREUM_MAINNET
      else if isValidSolanaPublicKey address then Some SOLANA_MAINNET
      else None)"

definition getNetworkFromAddress :: "string \<Rightarrow> Network option" where
  "getNetworkFromAddress address = detectNetwork address"

definition validateAddressForNetwork :: "string \<Rightarrow> Network \<Rightarrow> sdk_error + unit" where
  "validateAddressForNetwork address network =
     (if address = [] then
        Inl (ValidationError ''Address must be a non-empty string'' [(''address'', address)])
      else case network of
        ETHEREUM_MAINNET \<Rightarrow>
          if \<not> isValidEthereumAddress address then
            Inl (ValidationError
                  ''Invalid Ethereum address format. Expected 0x followed by 40 hexadecimal characters.''
                  [(''address'', address), (''network'', Network_value network)])
          else Inr ()
      | SOLANA_MAINNET \<Rightarrow>
          if \<not> isValidSolanaPublicKey address then
            Inl (ValidationError
                  ''Invalid Solana public key format. Expected base58 encoded string (32-44 characters).''
                  [(''address'', address), (''network'', Network_value network)])
          else Inr ())"

text \<open>
  \<open>String.prototype.toLowerCase\<close> on the ASCII letters; other characters are left as they
  are (on the addresses that pass validation, which are ASCII, this is the whole of it).
\<close>

definition toLowerChar :: "char \<Rightarrow> char" where
  "toLowerChar c =
     (case map_of (zip ''ABCDEFGHIJKLMNOPQRSTUVWXYZ'' ''abcdefghijklmnopqrstuvwxyz'') c of
        None \<Rightarrow> c | Some l \<Rightarrow> l)"

definition toLowerCase :: "string \<Rightarrow> string" where
  "toLowerCase s = map toLowerChar s"

definition normalizeEthereumAddress :: "string \<Rightarrow> sdk_error + string" where
  "normalizeEthereumAddress address =
     (if \<not> isValidEthereumAddress address then
        Inl (ValidationError ''Invalid Ethereum address'' [(''address'', address)])
      else Inr (toLowerCase address))"

definition normalizeSolanaPublicKey :: "string \<Rightarrow> sdk_error + string" where
  "normalizeSolanaPublicKey publicKey =
     (if \<not> isValidSolanaPublicKey publicKey then
        Inl (ValidationError ''Invalid Solana public key'' [(''publicKey'', publicKey)])
      else Inr publicKey)"

section \<open>Pagination and transactions (src/types/pagination.ts, src/types/transaction.ts)\<close>

text \<open>
  Optional fields are options; the numbers of these records (limits, pages, timestamps
  in milliseconds) are modelled as integers.
\<close>

record PaginationOptions =
  limit :: "int option"
  page :: "int option"
  cursor :: "string option"
  startTime :: "int option"
  endTime :: "int option"

definition no_options :: PaginationOptions where
  "no_options = \<lparr> limit = None, page = None, cursor = None, startTime = None, endTime = None \<rparr>"

record PaginationMetadata =
  total :: "int option"
  page_number :: "int option"
  totalPages :: "int option"
  nextCursor :: "string option"
  hasMore :: bool

record 'a PaginatedResponse =
  data :: "'a list"
  pagination :: PaginationMetadata

datatype TransactionStatus = SUCCESS | FAILED | PENDING

text \<open>
  The fields of \<open>BaseTransaction\<close> that the code under study reads; the fields specific to
  one network are not needed here and are left out.
\<close>

record Transaction =
  hash :: string
  timestamp :: int
  status :: TransactionStatus
  network :: Network

section \<open>In-memory cache (src/cache/memory-cache.ts)\<close>

text \<open>
  The \<open>Map\<close> of the cache is a list of (key, entry) pairs in insertion order, as a
  JavaScript \<open>Map\<close> iterates: \<open>set\<close> on a present key replaces its entry in place, on
  a new key appends.
\<close>

record 'v MemoryCacheEntry =
  entry_value :: 'v
  expiresAt :: int
  createdAt :: int

record 'v MemoryCache =
  defaultTtl :: int
  maxSize :: "int option"
  cache_enabled :: bool
  cache :: "(string \<times> 'v MemoryCacheEntry) list"

record CacheConfig =
  defaultTtl_cfg :: "int option"
  maxSize_cfg :: "int option"
  cache_enabled_cfg :: "bool option"

text \<open>\<open>v || d\<close> for an optional number: \<open>undefined\<close> and \<open>0\<close> are falsy.\<close>

definition or_default :: "int option \<Rightarrow> int \<Rightarrow> int" where
  "or_default v d = (case v of None \<Rightarrow> d | Some x \<Rightarrow> if x = 0 then d else x)"

text \<open>The constructor; \<open>maxSize = None\<close> is \<open>Infinity\<close>.\<close>

definition MemoryCache_new :: "CacheConfig \<Rightarrow> 'v MemoryCache" where
  "MemoryCache_new config =
     \<lparr> defaultTtl = or_default (defaultTtl_cfg config) 60000,
       maxSize = (case maxSize_cfg config of None \<Rightarrow> None
                  | Some x \<Rightarrow> if x = 0 then None else Some x),
       cache_enabled = (cache_enabled_cfg config \<noteq> Some False),
       cache = [] \<rparr>"

fun Map_set :: "string \<Rightarrow> 'e \<Rightarrow> (string \<times> 'e) list \<Rightarrow> (string \<times> 'e) list" where
  "Map_set k v [] = [(k, v)]"
| "Map_set k v ((k', v') # rest) =
     (if k' = k then (k, v) # rest else (k', v') # Map_set k v rest)"

definition Map_delete :: "string \<Rightarrow> (string \<times> 'e) list \<Rightarrow> (string \<times> 'e) list" where
  "Map_delete k m = filter (\<lambda>kv. fst kv \<noteq> k) m"

definition isExpired :: "int \<Rightarrow> 'v MemoryCacheEntry \<Rightarrow> bool" where
  "isExpired now entry = (now > expiresAt entry)"

definition evictExpired :: "int \<Rightarrow> 'v MemoryCache \<Rightarrow> 'v MemoryCache" where
  "evictExpired now c = c \<lparr> cache := filter (\<lambda>kv. \<not> now > expiresAt (snd kv)) (cache c) \<rparr>"

text \<open>
  \<open>evictOldest()\<close>: when the cache is full, the entries are sorted by creation time (the
  sort is stable) and the first \<open>size - maxSize + 1\<close> of them are deleted. When that
  number exceeds the number of entries (a \<open>maxSize\<close> below 1) the loop reads past the
  end of the array and a \<open>TypeError\<close> is thrown after all entries were deleted.
\<close>

definition evictOldest :: "'v MemoryCache \<Rightarrow> sdk_error option \<times> 'v MemoryCache" where
  "evictOldest c =
     (case maxSize c of
        None \<Rightarrow> (None, c)
      | Some mx \<Rightarrow>
          if int (length (cache c)) < mx then (None, c)
          else
            let entries = sort_key (\<lambda>kv. createdAt (snd kv)) (cache c);
                toRemove = int (length (cache c)) - mx + 1;
                doomed = map fst (take (nat toRemove) entries);
                c' = c \<lparr> cache := filter (\<lambda>kv. fst kv \<notin> set doomed) (cache c) \<rparr>
            in if toRemove > int (length entries)
               then (Some (OtherError ''TypeError: Cannot read properties of undefined''), c')
               else (None, c'))"

definition MemoryCache_get :: "int \<Rightarrow> string \<Rightarrow> 'v MemoryCache \<Rightarrow> 'v option \<times> 'v MemoryCache" where
  "MemoryCache_get now key c =
     (if \<not> cache_enabled c then (None, c)
      else
        let c1 = evictExpired now c
        in case map_of (cache c1) key of
             None \<Rightarrow> (None, c1)
           | Some entry \<Rightarrow>
               if isExpired now entry then (None, c1 \<lparr> cache := Map_delete key (cache c1) \<rparr>)
               else (Some (entry_value entry), c1))"

text \<open>\<open>set(key, value, ttl?)\<close>: the error thrown, if any, and the cache afterwards.\<close>

definition MemoryCache_set ::
  "int \<Rightarrow> string \<Rightarrow> 'v \<Rightarrow> int option \<Rightarrow> 'v MemoryCache \<Rightarrow> sdk_error option \<times> 'v MemoryCache" where
  "MemoryCache_set now key v ttl c =
     (if \<not> cache_enabled c then (None, c)
      else
        let c1 = evictExpired now c
        in case evictOldest c1 of
             (Some e, c2) \<Rightarrow> (Some e, c2)
           | (None, c2) \<Rightarrow>
               let expires = now + or_default ttl (defaultTtl c2)
               in (None, c2 \<lparr> cache := Map_set key
                                  \<lparr> entry_value = v, expiresAt = expires, createdAt = now \<rparr>
                                  (cache c2) \<rparr>))"

definition MemoryCache_clear :: "'v MemoryCache \<Rightarrow> 'v MemoryCache" where
  "MemoryCache_clear c = c \<lparr> cache := [] \<rparr>"

section \<open>Transaction cache (src/cache/transaction-cache.ts)\<close>

text \<open>\<open>Number.prototype.toString()\<close> on an integer: decimal digits, with a minus sign.\<close>

fun string_of_nat :: "nat \<Rightarrow> string" where
  "string_of_nat n =
     (if n < 10 then [''0123456789'' ! n]
      else string_of_nat (n div 10) @ [''0123456789'' ! (n mod 10)])"

declare string_of_nat.simps [simp del]

definition number_toString :: "int \<Rightarrow> string" where
  "number_toString i = (if i < 0 then CHR ''-'' # string_of_nat (nat (- i)) else string_of_nat (nat i))"

text \<open>\<open>s || d\<close> for an optional string: \<open>undefined\<close> and the empty string are falsy.\<close>

definition string_or :: "string option \<Rightarrow> string \<Rightarrow> string" where
  "string_or s d = (case s of None \<Rightarrow> d | Some x \<Rightarrow> if x = [] then d else x)"

fun join :: "string \<Rightarrow> string list \<Rightarrow> string" where
  "join sep [] = []"
| "join sep [x] = x"
| "join sep (x # y # rest) = x @ sep @ join sep (y # rest)"

text \<open>
  \<open>TransactionCacheKeyGenerator.generateKey(network, address, options?)\<close>; a missing
  \<open>options\<close> object is \<open>None\<close>.
\<close>

definition generateKey :: "string \<Rightarrow> string \<Rightarrow> PaginationOptions option \<Rightarrow> string" where
  "generateKey network_name address options =
     (let parts =
        [''tx'',
         network_name,
         toLowerCase address,
         string_or (map_option number_toString (Option.bind options limit)) ''100'',
         string_or (map_option number_toString (Option.bind options page)) ''1'',
         string_or (Option.bind options cursor) '''',
         string_or (map_option number_toString (Option.bind options startTime)) '''',
         string_or (map_option number_toString (Option.bind options endTime)) '''']
      in join '':'' parts)"

text \<open>
  \<open>TransactionCache\<close>: a \<open>MemoryCache\<close> of paginated responses, with the defaults of its
  constructor (TTL 30000 ms, at most 100 entries).
\<close>

definition TransactionCache_new :: "CacheConfig \<Rightarrow> 'v MemoryCache" where
  "TransactionCache_new config =
     MemoryCache_new
       \<lparr> defaultTtl_cfg = Some (or_default (defaultTtl_cfg config) 30000),
         maxSize_cfg = Some (or_default (maxSize_cfg config) 100),
         cache_enabled_cfg = Some (cache_enabled_cfg config \<noteq> Some False) \<rparr>"

definition TransactionCache_get ::
  "int \<Rightarrow> string \<Rightarrow> string \<Rightarrow> PaginationOptions option \<Rightarrow> 'v MemoryCache
     \<Rightarrow> 'v option \<times> 'v MemoryCache" where
  "TransactionCache_get now network_name address options c =
     MemoryCache_get now (generateKey network_name address options) c"

definition TransactionCache_set ::
  "int \<Rightarrow> string \<Rightarrow> string \<Rightarrow> 'v \<Rightarrow> PaginationOptions option \<Rightarrow> int option \<Rightarrow> 'v MemoryCache
     \<Rightarrow> sdk_error option \<times> 'v MemoryCache" where
  "TransactionCache_set now network_name address response options ttl c =
     MemoryCache_set now (generateKey network_name address options) response ttl c"

text \<open>\<open>invalidate(network, address)\<close> clears the whole cache.\<close>

definition TransactionCache_invalidate :: "string \<Rightarrow> string \<Rightarrow> 'v MemoryCache \<Rightarrow> 'v MemoryCache" where
  "TransactionCache_invalidate network_name address c = MemoryCache_clear c"

section \<open>Providers (src/providers/ethereum.ts, src/providers/solana.ts)\<close>

text \<open>
  Both providers read \<open>options.limit || 100\<close>; the REST provider also
  \<open>options.page || 1\<close>.
\<close>

definition requestedLimit :: "PaginationOptions \<Rightarrow> int" where
  "requestedLimit options = or_default (limit options) 100"

definition requestedPage :: "PaginationOptions \<Rightarrow> int" where
  "requestedPage options = or_default (page options) 1"

text \<open>\<open>haystack.includes(needle)\<close>.\<close>

fun string_includes :: "string \<Rightarrow> string \<Rightarrow> bool" where
  "string_includes [] needle = (needle = [])"
| "string_includes (c # cs) needle = (take (length needle) (c # cs) = needle \<or> string_includes cs needle)"

text \<open>
  \<open>error instanceof Error ? error.message : String(error)\<close> for a thrown value; \<open>None\<close> is
  \<open>undefined\<close>.
\<close>

fun error_message :: "sdk_error option \<Rightarrow> string" where
  "error_message None = ''undefined''"
| "error_message (Some (NetworkError m)) = m"
| "error_message (Some (ValidationError m c)) = m"
| "error_message (Some (RateLimitError m r)) = m"
| "error_message (Some (ProviderError m p s)) = m"
| "error_message (Some (ConfigurationError m)) = m"
| "error_message (Some (OtherError m)) = m"

text \<open>
  \<open>xs.map(f)\<close> for a callback that can throw: the first exception ends the traversal.
\<close>

fun map_throwing :: "('a \<Rightarrow> sdk_error + 'b) \<Rightarrow> 'a list \<Rightarrow> sdk_error + 'b list" where
  "map_throwing f [] = Inr []"
| "map_throwing f (x # xs) =
     (case f x of
        Inl e \<Rightarrow> Inl e
      | Inr y \<Rightarrow> (case map_throwing f xs of Inl e \<Rightarrow> Inl e | Inr ys \<Rightarrow> Inr (y # ys)))"

subsection \<open>The REST-indexer provider\<close>

text \<open>
  The body of an Etherscan response: \<open>result\<close> is a string, an array of raw records, or
  anything else. The raw records are of an arbitrary type \<open>'raw\<close>; \<open>transformTransaction\<close>
  (a per-record mapping, which can throw on malformed fields) is a parameter.
\<close>

datatype 'raw EtherscanResult = ResultString string | ResultArray "'raw list" | ResultOther

record 'raw EtherscanTransactionResponse =
  es_status :: string
  es_message :: string
  es_result :: "'raw EtherscanResult"

text \<open>The body of the \<open>try\<close> block after the response has arrived.\<close>

definition EthereumProvider_handleResponse ::
  "('raw \<Rightarrow> sdk_error + Transaction) \<Rightarrow> 'raw EtherscanTransactionResponse \<Rightarrow> int \<Rightarrow> int
     \<Rightarrow> sdk_error + Transaction PaginatedResponse" where
  "EthereumProvider_handleResponse transformTransaction d limit_n pg =
     (case es_result d of
        ResultString s \<Rightarrow>
          if es_status d = ''0'' then
            (if string_includes s ''No transactions found'' then
               Inr \<lparr> data = [],
                     pagination = \<lparr> total = Some 0, page_number = Some pg, totalPages = Some 0,
                                    nextCursor = None, hasMore = False \<rparr> \<rparr>
             else Inl (ProviderError (''Etherscan API error: '' @ s) (Some ''Etherscan'') None))
          else Inl (ProviderError ''Unexpected response format from Etherscan API''
                      (Some ''Etherscan'') None)
      | ResultOther \<Rightarrow>
          Inl (ProviderError ''Unexpected response format from Etherscan API'' (Some ''Etherscan'') None)
      | ResultArray raws \<Rightarrow>
          (case map_throwing transformTransaction raws of
             Inl e \<Rightarrow> Inl e
           | Inr transactions \<Rightarrow>
               let more = (int (length transactions) = limit_n)
               in Inr \<lparr> data = transactions,
                        pagination = \<lparr> total = None, page_number = Some pg,
                                       totalPages = (if more then None else Some pg),
                                       nextCursor = None, hasMore = more \<rparr> \<rparr>))"

text \<open>The \<open>catch\<close> block: a provider error passes, anything else is wrapped.\<close>

fun EthereumProvider_catch :: "sdk_error option \<Rightarrow> sdk_error" where
  "EthereumProvider_catch (Some (ProviderError m p s)) = ProviderError m p s"
| "EthereumProvider_catch thrown =
     ProviderError (''Failed to fetch Ethereum transactions: '' @ error_message thrown)
       (Some ''Etherscan'') None"

text \<open>
  \<open>getTransactions(address, options)\<close>. The surroundings are parameters: the configured
  API key; \<open>acquired\<close>, how \<open>await this.rateLimiter.acquire()\<close> ends (\<open>None\<close>: resolved,
  \<open>Some e\<close>: rejected with \<open>e\<close>); \<open>httpRequest\<close>, the outcome of each successive call of
  \<open>httpRequest\<close> for the URL built from the address and the options (\<open>Inr\<close> the
  response body). The result comes with the number of requests made.
\<close>

definition EthereumProvider_getTransactions ::
  "string option \<Rightarrow> sdk_error option \<Rightarrow> (nat \<Rightarrow> sdk_error + 'raw EtherscanTransactionResponse)
     \<Rightarrow> ('raw \<Rightarrow> sdk_error + Transaction) \<Rightarrow> string \<Rightarrow> PaginationOptions
     \<Rightarrow> (sdk_error + Transaction PaginatedResponse) \<times> nat" where
  "EthereumProvider_getTransactions apiKey acquired httpRequest transformTransaction address options =
     (if string_or apiKey [] = [] then (Inl (ConfigurationError ''Etherscan API key is required''), 0)
      else case acquired of
        Some e \<Rightarrow> (Inl e, 0)
      | None \<Rightarrow>
          let limit_n = requestedLimit options;
              pg = requestedPage options;
              run = retryWithBackoff httpRequest provider_retry_config
          in (case outcome run of
                Inl thrown \<Rightarrow> (Inl (EthereumProvider_catch thrown), calls run)
              | Inr d \<Rightarrow>
                  (case EthereumProvider_handleResponse transformTransaction d limit_n pg of
                     Inl e \<Rightarrow> (Inl (EthereumProvider_catch (Some e)), calls run)
                   | Inr response \<Rightarrow> (Inr response, calls run))))"

text \<open>The number of records in a response body (none when \<open>result\<close> is no array).\<close>

definition records_returned :: "'raw EtherscanTransactionResponse \<Rightarrow> nat" where
  "records_returned d = (case es_result d of ResultArray raws \<Rightarrow> length raws | _ \<Rightarrow> 0)"

subsection \<open>The JSON-RPC provider\<close>

text \<open>
  A JSON-RPC envelope: \<open>result\<close> (\<open>None\<close>: the field is \<open>undefined\<close>) and \<open>error\<close> (code
  and message). For \<open>getSignaturesForAddress\<close> the result is a list of signature records
  or \<open>null\<close>; for \<open>getTransaction\<close> a detail record, of an arbitrary type \<open>'details\<close>, or
  \<open>null\<close>.
\<close>

record 'a SolanaRpcResponse =
  rpc_result :: "'a option"
  rpc_error :: "(int \<times> string) option"

record SolanaSignatureInfo =
  signature :: string
  slot :: int
  err :: bool
  blockTime :: "int option"

fun SolanaProvider_catch :: "sdk_error option \<Rightarrow> sdk_error" where
  "SolanaProvider_catch (Some (ProviderError m p s)) = ProviderError m p s"
| "SolanaProvider_catch thrown =
     ProviderError (''Failed to make Solana RPC request: '' @ error_message thrown)
       (Some ''Solana RPC'') None"

text \<open>
  \<open>rpcRequest(method, params)\<close>, given how the limiter's \<open>acquire()\<close> ends and the outcomes
  of the successive HTTP requests; the result comes with the number of requests made.
\<close>

definition rpcRequest ::
  "sdk_error option \<times> (nat \<Rightarrow> sdk_error + 'a SolanaRpcResponse) \<Rightarrow> (sdk_error + 'a) \<times> nat" where
  "rpcRequest env =
     (case fst env of
        Some e \<Rightarrow> (Inl e, 0)
      | None \<Rightarrow>
          let run = retryWithBackoff (snd env) provider_retry_config
          in (case outcome run of
                Inl thrown \<Rightarrow> (Inl (SolanaProvider_catch thrown), calls run)
              | Inr d \<Rightarrow>
                  (case rpc_error d of
                     Some (code, msg) \<Rightarrow>
                       (Inl (ProviderError (''Solana RPC error: '' @ msg) (Some ''Solana RPC'') (Some code)),
                        calls run)
                   | None \<Rightarrow>
                       (case rpc_result d of
                          None \<Rightarrow>
                            (Inl (ProviderError ''Unexpected response format from Solana RPC''
                                   (Some ''Solana RPC'') None), calls run)
                        | Some r \<Rightarrow> (Inr r, calls run)))))"

text \<open>
  \<open>Promise.all\<close> over the detail requests: all results in the order of the requests, or
  a rejection. Which rejection wins depends on the order of completion; the model takes
  the first in the order of the requests.
\<close>

fun Promise_all :: "(sdk_error + 'a) list \<Rightarrow> sdk_error + 'a list" where
  "Promise_all [] = Inr []"
| "Promise_all (r # rs) =
     (case r of
        Inl e \<Rightarrow> Inl e
      | Inr x \<Rightarrow> (case Promise_all rs of Inl e \<Rightarrow> Inl e | Inr xs \<Rightarrow> Inr (x # xs)))"

text \<open>
  \<open>transformTransaction(sigInfo, details)\<close> returns \<open>null\<close> for missing details; what it
  builds otherwise is a parameter (and can throw on malformed details). The \<open>map\<close> and
  \<open>filter\<close> of step 3 keep the transactions that are not \<open>null\<close>, in order.
\<close>

fun transformAll ::
  "(SolanaSignatureInfo \<Rightarrow> 'details \<Rightarrow> sdk_error + Transaction)
     \<Rightarrow> (SolanaSignatureInfo \<times> 'details option) list \<Rightarrow> sdk_error + Transaction list" where
  "transformAll transformTransaction [] = Inr []"
| "transformAll transformTransaction ((sig, None) # rest) = transformAll transformTransaction rest"
| "transformAll transformTransaction ((sig, Some d) # rest) =
     (case transformTransaction sig d of
        Inl e \<Rightarrow> Inl e
      | Inr tx \<Rightarrow>
          (case transformAll transformTransaction rest of
             Inl e \<Rightarrow> Inl e
           | Inr txs \<Rightarrow> Inr (tx # txs)))"

text \<open>
  \<open>getTransactions(publicKey, options)\<close>. \<open>sigEnv\<close> is the surroundings of the
  \<open>getSignaturesForAddress\<close> request, \<open>txEnv i\<close> those of the \<open>getTransaction\<close> request
  for the \<open>i\<close>-th signature.
\<close>

definition SolanaProvider_getTransactions ::
  "sdk_error option \<times> (nat \<Rightarrow> sdk_error + SolanaSignatureInfo list option SolanaRpcResponse)
     \<Rightarrow> (nat \<Rightarrow> sdk_error option \<times> (nat \<Rightarrow> sdk_error + 'details option SolanaRpcResponse))
     \<Rightarrow> (SolanaSignatureInfo \<Rightarrow> 'details \<Rightarrow> sdk_error + Transaction)
     \<Rightarrow> string \<Rightarrow> PaginationOptions
     \<Rightarrow> (sdk_error + Transaction PaginatedResponse) \<times> nat" where
  "SolanaProvider_getTransactions sigEnv txEnv transformTransaction publicKey options =
     (let limit_n = requestedLimit options
      in case rpcRequest sigEnv of
           (Inl e, n) \<Rightarrow> (Inl e, n)
         | (Inr signatures, n) \<Rightarrow>
             (case signatures of
                None \<Rightarrow>
                  (Inr \<lparr> data = [],
                         pagination = \<lparr> total = None, page_number = None, totalPages = None,
                                        nextCursor = None, hasMore = False \<rparr> \<rparr>, n)
              | Some sigs \<Rightarrow>
                  if sigs = [] then
                    (Inr \<lparr> data = [],
                           pagination = \<lparr> total = None, page_number = None, totalPages = None,
                                          nextCursor = None, hasMore = False \<rparr> \<rparr>, n)
                  else
                    let requests = map (\<lambda>i. rpcRequest (txEnv i)) [0..<length sigs];
                        n' = n + sum_list (map snd requests)
                    in (case Promise_all (map fst requests) of
                          Inl e \<Rightarrow> (Inl e, n')
                        | Inr transactionDetails \<Rightarrow>
                            (case transformAll transformTransaction (zip sigs transactionDetails) of
                               Inl e \<Rightarrow> (Inl e, n')
                             | Inr transactions \<Rightarrow>
                                 let more = (int (length sigs) = limit_n);
                                     cursor_next = (if more then Some (signature (last sigs)) else None)
                                 in (Inr \<lparr> data = transactions,
                                          pagination = \<lparr> total = None, page_number = None,
                                                         totalPages = None, nextCursor = cursor_next,
                                                         hasMore = more \<rparr> \<rparr>, n')))))"

section \<open>Adapters (src/adapters/ethereum.ts, src/adapters/solana.ts)\<close>

text \<open>
  An adapter holds a provider. Here the provider is any function from the address, the
  options and the state of the world outside (network, limiter, clock) to a result and
  the world afterwards; the two providers above are instances.
\<close>

type_synonym 'w provider =
  "string \<Rightarrow> PaginationOptions \<Rightarrow> 'w \<Rightarrow> (sdk_error + Transaction PaginatedResponse) \<times> 'w"

definition validateAddress :: "Network \<Rightarrow> string \<Rightarrow> bool" where
  "validateAddress net address =
     (case validateAddressForNetwork address net of Inl e \<Rightarrow> False | Inr u \<Rightarrow> True)"

definition applyTimeRangeFilter :: "PaginationOptions \<Rightarrow> PaginationOptions" where
  "applyTimeRangeFilter options =
     \<lparr> limit = limit options, page = page options, cursor = cursor options,
       startTime = None, endTime = None \<rparr>"

definition filterTransactions :: "Transaction list \<Rightarrow> PaginationOptions \<Rightarrow> Transaction list" where
  "filterTransactions transactions options =
     (let filtered = transactions;
          filtered1 = (case startTime options of
                         None \<Rightarrow> filtered
                       | Some s \<Rightarrow> filter (\<lambda>tx. timestamp tx \<ge> s) filtered);
          filtered2 = (case endTime options of
                         None \<Rightarrow> filtered1
                       | Some e \<Rightarrow> filter (\<lambda>tx. timestamp tx \<le> e) filtered1)
      in filtered2)"

definition EthereumAdapter_getTransactions ::
  "'w provider \<Rightarrow> string \<Rightarrow> PaginationOptions \<Rightarrow> 'w
     \<Rightarrow> (sdk_error + Transaction PaginatedResponse) \<times> 'w" where
  "EthereumAdapter_getTransactions provider address options w =
     (if \<not> validateAddress ETHEREUM_MAINNET address then
        (Inl (ValidationError ''Invalid Ethereum address format'' [(''address'', address)]), w)
      else case normalizeEthereumAddress address of
        Inl e \<Rightarrow> (Inl e, w)
      | Inr normalizedAddress \<Rightarrow>
          let filteredOptions = applyTimeRangeFilter options
          in (case provider normalizedAddress filteredOptions w of
                (Inl e, w') \<Rightarrow> (Inl e, w')
              | (Inr response, w') \<Rightarrow>
                  (Inr \<lparr> data = filterTransactions (data response) options,
                         pagination = pagination response \<rparr>, w')))"

definition SolanaAdapter_getTransactions ::
  "'w provider \<Rightarrow> string \<Rightarrow> PaginationOptions \<Rightarrow> 'w
     \<Rightarrow> (sdk_error + Transaction PaginatedResponse) \<times> 'w" where
  "SolanaAdapter_getTransactions provider publicKey options w =
     (if \<not> validateAddress SOLANA_MAINNET publicKey then
        (Inl (ValidationError ''Invalid Solana public key format'' [(''publicKey'', publicKey)]), w)
      else case normalizeSolanaPublicKey publicKey of
        Inl e \<Rightarrow> (Inl e, w)
      | Inr normalizedPublicKey \<Rightarrow>
          (case provider normalizedPublicKey options w of
             (Inl e, w') \<Rightarrow> (Inl e, w')
           | (Inr response, w') \<Rightarrow>
               (Inr \<lparr> data = filterTransactions (data response) options,
                      pagination = pagination response \<rparr>, w')))"

section \<open>The SDK client (src/client.ts)\<close>

text \<open>
  The client holds the adapters that are configured (each given by its provider) and,
  when caching is enabled, the transaction cache. \<open>clock\<close> reads \<open>Date.now()\<close> off the
  world. Logging does not touch any of this and is left out.
\<close>

record 'w BlockchainSDK =
  ethereumAdapter :: "'w provider option"
  solanaAdapter :: "'w provider option"
  sdk_cache :: "Transaction PaginatedResponse MemoryCache option"

definition options_or_empty :: "PaginationOptions option \<Rightarrow> PaginationOptions" where
  "options_or_empty options = (case options of None \<Rightarrow> no_options | Some opts \<Rightarrow> opts)"

definition getEthereumTransactions ::
  "'w BlockchainSDK \<Rightarrow> string \<Rightarrow> PaginationOptions option \<Rightarrow> 'w
     \<Rightarrow> (sdk_error + Transaction PaginatedResponse) \<times> 'w" where
  "getEthereumTransactions sdk address options w =
     (case ethereumAdapter sdk of
        None \<Rightarrow>
          (Inl (ConfigurationError
             ''Ethereum provider is not configured. Please provide ethereum configuration in SDK config.''), w)
      | Some provider \<Rightarrow> EthereumAdapter_getTransactions provider address (options_or_empty options) w)"

definition getSolanaTransactions ::
  "'w BlockchainSDK \<Rightarrow> string \<Rightarrow> PaginationOptions option \<Rightarrow> 'w
     \<Rightarrow> (sdk_error + Transaction PaginatedResponse) \<times> 'w" where
  "getSolanaTransactions sdk publicKey options w =
     (case solanaAdapter sdk of
        None \<Rightarrow>
          (Inl (ConfigurationError
             ''Solana provider is not configured. Please provide solana configuration in SDK config.''), w)
      | Some provider \<Rightarrow> SolanaAdapter_getTransactions provider publicKey (options_or_empty options) w)"

text \<open>
  \<open>getTransactions(address, options?)\<close>: the result, the client afterwards (its cache
  changes) and the world afterwards.
\<close>

definition BlockchainSDK_getTransactions ::
  "('w \<Rightarrow> int) \<Rightarrow> 'w BlockchainSDK \<Rightarrow> string \<Rightarrow> PaginationOptions option \<Rightarrow> 'w
     \<Rightarrow> (sdk_error + Transaction PaginatedResponse) \<times> 'w BlockchainSDK \<times> 'w" where
  "BlockchainSDK_getTransactions clock sdk address options w =
     (case getNetworkFromAddress address of
        None \<Rightarrow>
          (Inl (ValidationError
             ''Unable to detect network from address format. Please use a valid Ethereum address (0x...) or Solana public key.''
             [(''address'', address)]), sdk, w)
      | Some net \<Rightarrow>
          let lookup =
                (case sdk_cache sdk of
                   None \<Rightarrow> (None, sdk)
                 | Some c \<Rightarrow>
                     (case TransactionCache_get (clock w) (Network_value net) address options c of
                        (cached, c') \<Rightarrow> (cached, sdk \<lparr> sdk_cache := Some c' \<rparr>)));
              sdk1 = snd lookup
          in case fst lookup of
               Some cached \<Rightarrow> (Inr cached, sdk1, w)
             | None \<Rightarrow>
                 (case (case net of
                          ETHEREUM_MAINNET \<Rightarrow> getEthereumTransactions sdk1 address options w
                        | SOLANA_MAINNET \<Rightarrow> getSolanaTransactions sdk1 address options w) of
                    (Inl e, w') \<Rightarrow> (Inl e, sdk1, w')
                  | (Inr result, w') \<Rightarrow>
                      (case sdk_cache sdk1 of
                         None \<Rightarrow> (Inr result, sdk1, w')
                       | Some c \<Rightarrow>
                           (case TransactionCache_set (clock w') (Network_value net) address result
                                   options None c of
                              (Some e, c') \<Rightarrow> (Inl e, sdk1 \<lparr> sdk_cache := Some c' \<rparr>, w')
                            | (None, c') \<Rightarrow> (Inr result, sdk1 \<lparr> sdk_cache := Some c' \<rparr>, w')))))"

section \<open>Example surroundings\<close>

text \<open>
  A backend that answers every request with the same body, a raw record made of a hash
  and a time in seconds with its transformation, and the three Etherscan bodies of the
  repository's test mocks (reduced to those two fields).
\<close>

definition always_responds :: "'a \<Rightarrow> nat \<Rightarrow> sdk_error + 'a" where
  "always_responds d i = Inr d"

definition example_transform :: "string \<times> int \<Rightarrow> sdk_error + Transaction" where
  "example_transform raw =
     Inr \<lparr> hash = fst raw, timestamp = snd raw * 1000, status = SUCCESS, network = ETHEREUM_MAINNET \<rparr>"

definition mockEtherscanSuccessResponse :: "(string \<times> int) EtherscanTransactionResponse" where
  "mockEtherscanSuccessResponse =
     \<lparr> es_status = ''1'', es_message = ''OK'',
       es_result = ResultArray [(''0x1234'', 1609459200), (''0xabcd'', 1609459300)] \<rparr>"

definition mockEtherscanNoTransactionsResponse :: "(string \<times> int) EtherscanTransactionResponse" where
  "mockEtherscanNoTransactionsResponse =
     \<lparr> es_status = ''0'', es_message = ''No transactions found'',
       es_result = ResultString ''No transactions found'' \<rparr>"

definition mockEtherscanErrorResponse :: "(string \<times> int) EtherscanTransactionResponse" where
  "mockEtherscanErrorResponse =
     \<lparr> es_status = ''0'', es_message = ''NOTOK'', es_result = ResultString ''Invalid API Key'' \<rparr>"

text \<open>
  Two more Etherscan bodies: a page of 100 records (what the backend returns when asked
  for 100 and more exist) and an empty result array.
\<close>

definition full_page_response :: "(string \<times> int) EtherscanTransactionResponse" where
  "full_page_response =
     \<lparr> es_status = ''1'', es_message = ''OK'',
       es_result = ResultArray (replicate 100 (''0x1234'', 1609459200)) \<rparr>"

definition empty_array_response :: "(string \<times> int) EtherscanTransactionResponse" where
  "empty_array_response = \<lparr> es_status = ''1'', es_message = ''OK'', es_result = ResultArray [] \<rparr>"

text \<open>
  A JSON-RPC backend that returns two signature records and a detail record (here just
  the fee) for each of them, and a transformation of such pairs.
\<close>

definition mockSolanaSignatures :: "SolanaSignatureInfo list" where
  "mockSolanaSignatures =
     [\<lparr> signature = ''5VERv8NMvzbJ'', slot = 123456789, err = False, blockTime = Some 1609459200 \<rparr>,
      \<lparr> signature = ''2V7FshZJv8XH'', slot = 123456790, err = False, blockTime = Some 1609459300 \<rparr>]"

definition example_sigEnv ::
  "sdk_error option \<times> (nat \<Rightarrow> sdk_error + SolanaSignatureInfo list option SolanaRpcResponse)" where
  "example_sigEnv =
     (None, always_responds \<lparr> rpc_result = Some (Some mockSolanaSignatures), rpc_error = None \<rparr>)"

text \<open>A JSON-RPC backend that has no signature for the address: \<open>result: []\<close>.\<close>

definition empty_sigEnv ::
  "sdk_error option \<times> (nat \<Rightarrow> sdk_error + SolanaSignatureInfo list option SolanaRpcResponse)" where
  "empty_sigEnv = (None, always_responds \<lparr> rpc_result = Some (Some []), rpc_error = None \<rparr>)"

definition example_txEnv ::
  "nat \<Rightarrow> sdk_error option \<times> (nat \<Rightarrow> sdk_error + int option SolanaRpcResponse)" where
  "example_txEnv i = (None, always_responds \<lparr> rpc_result = Some (Some 5000), rpc_error = None \<rparr>)"

definition example_solana_transform :: "SolanaSignatureInfo \<Rightarrow> int \<Rightarrow> sdk_error + Transaction" where
  "example_solana_transform sigInfo fee =
     Inr \<lparr> hash = signature sigInfo,
           timestamp = (case blockTime sigInfo of None \<Rightarrow> 0 | Some t \<Rightarrow> t * 1000),
           status = (if err sigInfo then FAILED else SUCCESS),
           network = SOLANA_MAINNET \<rparr>"

text \<open>
  A world that only counts the requests sent, and a provider on it that sends one request
  and returns a page of two transactions.
\<close>

definition counting_provider :: "nat provider" where
  "counting_provider address options w =
     (Inr \<lparr> data = [\<lparr> hash = ''0x1234'', timestamp = 1609459200000, status = SUCCESS,
                       network = ETHEREUM_MAINNET \<rparr>,
                     \<lparr> hash = ''0xabcd'', timestamp = 1609459300000, status = SUCCESS,
                       network = ETHEREUM_MAINNET \<rparr>],
            pagination = \<lparr> total = None, page_number = Some 1, totalPages = None,
                           nextCursor = Some ''0xabcd'', hasMore = True \<rparr> \<rparr>, Suc w)"

text \<open>A provider on the same world whose page holds one transaction named after the address asked.\<close>

definition echo_provider :: "nat provider" where
  "echo_provider address options w =
     (Inr \<lparr> data = [\<lparr> hash = address, timestamp = 1609459200000, status = SUCCESS,
                       network = SOLANA_MAINNET \<rparr>],
            pagination = \<lparr> total = None, page_number = None, totalPages = None,
                           nextCursor = None, hasMore = False \<rparr> \<rparr>, Suc w)"

definition example_sdk :: "nat BlockchainSDK" where
  "example_sdk =
     \<lparr> ethereumAdapter = Some counting_provider, solanaAdapter = Some echo_provider,
       sdk_cache = Some (TransactionCache_new
                          \<lparr> defaultTtl_cfg = None, maxSize_cfg = None, cache_enabled_cfg = Some True \<rparr>) \<rparr>"

text \<open>A clock for that world: it stands at 1000 ms.\<close>

definition example_clock :: "nat \<Rightarrow> int" where
  "example_clock w = 1000"

section \<open>Properties of the retry policy\<close>

lemma retryLoop_waits_prefix:
  "\<exists>xs. waits (retryLoop config fn attempt lastError delays) = delays @ xs"
proof (induction config fn attempt lastError delays rule: retryLoop.induct)
  case (1 config fn attempt lastError delays)
  show ?case
  proof (cases "int attempt \<le> maxRetries config")
    case False
    then show ?thesis by (subst retryLoop.simps) simp
  next
    case True
    show ?thesis
    proof (cases "fn attempt")
      case (Inr v)
      with True show ?thesis by (subst retryLoop.simps) simp
    next
      case (Inl e)
      show ?thesis
      proof (cases "isRetryableError e config \<and> int attempt < maxRetries config")
        case False
        with True Inl show ?thesis by (subst retryLoop.simps) auto
      next
        case T: True
        from "1.IH"[OF True Inl] T
        obtain xs where "waits (retryLoop config fn (attempt + 1) (Some e)
            (delays @ [retryDelay e attempt config])) = (delays @ [retryDelay e attempt config]) @ xs"
          by auto
        with True Inl T show ?thesis by (subst retryLoop.simps) auto
      qed
    qed
  qed
qed

lemma retryLoop_nonretryable:
  assumes "int attempt \<le> maxRetries config" "fn attempt = Inl e" "\<not> isRetryableError e config"
  shows "retryLoop config fn attempt lastError delays =
           \<lparr> outcome = Inl (Some e), calls = attempt + 1, waits = delays \<rparr>"
  using assms by (subst retryLoop.simps) simp

lemma retryLoop_all_retryable:
  assumes "\<forall>i. \<exists>e. fn i = Inl e \<and> isRetryableError e config"
    and "int attempt \<le> maxRetries config"
  shows "calls (retryLoop config fn attempt lastError delays) = nat (maxRetries config) + 1 \<and>
         outcome (retryLoop config fn attempt lastError delays) =
           map_sum Some id (fn (nat (maxRetries config)))"
  using assms
proof (induction config fn attempt lastError delays rule: retryLoop.induct)
  case (1 config fn attempt lastError delays)
  from "1.prems"(1) obtain e where e: "fn attempt = Inl e" "isRetryableError e config" by blast
  show ?case
  proof (cases "int attempt \<ge> maxRetries config")
    case True
    with "1.prems" have eq: "nat (maxRetries config) = attempt" by simp
    have "retryLoop config fn attempt lastError delays =
            \<lparr> outcome = Inl (Some e), calls = attempt + 1, waits = delays \<rparr>"
      using True "1.prems"(2) e by (subst retryLoop.simps) simp
    with e show ?thesis by (simp add: eq)
  next
    case False
    have unfold: "retryLoop config fn attempt lastError delays =
        retryLoop config fn (attempt + 1) (Some e) (delays @ [retryDelay e attempt config])"
      using False e by (subst retryLoop.simps) simp
    from False "1.IH"[OF "1.prems"(2) e(1)] e "1.prems"(1) show ?thesis
      by (simp add: unfold)
  qed
qed

lemma retryLoop_wait_at:
  assumes "\<forall>i\<le>k. \<exists>e. fn i = Inl e \<and> isRetryableError e config"
    and "int k < maxRetries config" and "attempt \<le> k" and "length delays = attempt"
  shows "k < length (waits (retryLoop config fn attempt lastError delays)) \<and>
         (\<exists>e. fn k = Inl e \<and>
            waits (retryLoop config fn attempt lastError delays) ! k = retryDelay e k config)"
  using assms
proof (induction config fn attempt lastError delays rule: retryLoop.induct)
  case (1 config fn attempt lastError delays)
  from "1.prems"(1,3) obtain e where e: "fn attempt = Inl e" "isRetryableError e config" by blast
  from "1.prems" have lt: "int attempt < maxRetries config" by simp
  let ?ds = "delays @ [retryDelay e attempt config]"
  have unfold: "retryLoop config fn attempt lastError delays =
                retryLoop config fn (attempt + 1) (Some e) ?ds"
    using e lt by (subst retryLoop.simps) simp
  show ?case
  proof (cases "attempt = k")
    case True
    from retryLoop_waits_prefix[of config fn "attempt + 1" "Some e" ?ds]
    obtain xs where xs: "waits (retryLoop config fn (attempt + 1) (Some e) ?ds) = ?ds @ xs"
      by blast
    from "1.prems"(4) True have "(?ds @ xs) ! k = retryDelay e k config"
      by (simp add: nth_append)
    show ?thesis unfolding unfold using xs e True "1.prems"(4) by (simp add: nth_append)
  next
    case False
    with "1.prems" have "attempt + 1 \<le> k" "length ?ds = attempt + 1" by simp_all
    with "1.IH"[OF _ e(1)] lt e "1.prems"(1,2) show ?thesis unfolding unfold by simp
  qed
qed


text \<open>
  C1. Claimed: a provider error is retried if and only if its status code is in the
  configured \<open>retryableStatusCodes\<close>. The code never reads that list: an operation that
  always fails with a provider error of status 503, run under the providers' own
  configuration (which lists 503), is invoked once, no delay is waited, and the error
  surfaces.
\<close>

theorem provider_error_503_not_retried:
  "503 \<in> set (retryableStatusCodes (mergeRetryConfig provider_retry_config)) \<and>
   retryWithBackoff (always_fails (ProviderError ''HTTP 503: Service Unavailable'' None (Some 503)))
       provider_retry_config =
     \<lparr> outcome = Inl (Some (ProviderError ''HTTP 503: Service Unavailable'' None (Some 503))),
       calls = 1, waits = [] \<rparr>"
  by (simp add: retryWithBackoff_def retryLoop.simps always_fails_def provider_retry_config_def
      no_retry_config_def mergeRetryConfig_def DEFAULT_RETRY_CONFIG_def)

text \<open>
  More generally, whatever the status code and the configured list, a provider error at
  the first invocation ends the run after that single invocation.
\<close>

lemma provider_error_never_retried:
  assumes "0 \<le> maxRetries (mergeRetryConfig config)" and "fn 0 = Inl (ProviderError m p s)"
  shows "retryWithBackoff fn config =
           \<lparr> outcome = Inl (Some (ProviderError m p s)), calls = 1, waits = [] \<rparr>"
  using assms by (simp add: retryWithBackoff_def retryLoop_nonretryable)

text \<open>
  C2. Claimed: an operation that fails with a retryable error on every invocation is
  invoked exactly \<open>maxRetries + 1\<close> times. Under the providers' configuration
  (\<open>maxRetries = 3\<close>, 502 in \<open>retryableStatusCodes\<close>), an operation that first times out
  and from then on meets HTTP 502 fails with a retryable error of the policy at every
  invocation; it is invoked twice, not four times: the timeout is retried after
  1000 ms, the provider error of status 502 ends the run.
\<close>

theorem retryable_status_ends_retries:
  "maxRetries (mergeRetryConfig provider_retry_config) = 3 \<and>
   502 \<in> set (retryableStatusCodes (mergeRetryConfig provider_retry_config)) \<and>
   retryWithBackoff timeout_then_502 provider_retry_config =
     \<lparr> outcome = Inl (Some (ProviderError ''HTTP 502: Bad Gateway'' None (Some 502))),
       calls = 2, waits = [1000] \<rparr>"
  by (simp add: retryWithBackoff_def retryLoop.simps provider_retry_config_def
      no_retry_config_def mergeRetryConfig_def DEFAULT_RETRY_CONFIG_def calculateDelay_def)

text \<open>
  The counts do hold when \<open>retryable\<close> is read as what \<open>isRetryableError\<close> accepts (network
  and rate-limit errors only) and \<open>maxRetries\<close> is not negative: a first failure that
  \<open>isRetryableError\<close> rejects is thrown after exactly one invocation, and when every
  invocation fails with an error it accepts, the operation is invoked exactly
  \<open>maxRetries + 1\<close> times and the error of the last invocation is thrown unchanged.
\<close>

theorem invocation_count_code_retryable:
  assumes "0 \<le> maxRetries (mergeRetryConfig config)"
  shows "(\<forall>e. fn 0 = Inl e \<and> \<not> isRetryableError e (mergeRetryConfig config) \<longrightarrow>
            calls (retryWithBackoff fn config) = 1 \<and>
            outcome (retryWithBackoff fn config) = Inl (Some e)) \<and>
         ((\<forall>i. \<exists>e. fn i = Inl e \<and> isRetryableError e (mergeRetryConfig config)) \<longrightarrow>
            calls (retryWithBackoff fn config) = nat (maxRetries (mergeRetryConfig config)) + 1 \<and>
            (\<exists>e. fn (nat (maxRetries (mergeRetryConfig config))) = Inl e \<and>
                 outcome (retryWithBackoff fn config) = Inl (Some e)))"
proof (intro conjI allI impI)
  fix e
  assume "fn 0 = Inl e \<and> \<not> isRetryableError e (mergeRetryConfig config)"
  with assms have "retryWithBackoff fn config = \<lparr> outcome = Inl (Some e), calls = 0 + 1, waits = [] \<rparr>"
    unfolding retryWithBackoff_def by (intro retryLoop_nonretryable) simp_all
  then show "calls (retryWithBackoff fn config) = 1"
    and "outcome (retryWithBackoff fn config) = Inl (Some e)" by simp_all
next
  assume all: "\<forall>i. \<exists>e. fn i = Inl e \<and> isRetryableError e (mergeRetryConfig config)"
  from assms have le: "int 0 \<le> maxRetries (mergeRetryConfig config)" by simp
  note r = retryLoop_all_retryable[OF all le, of None "[]"]
  from r show "calls (retryWithBackoff fn config) = nat (maxRetries (mergeRetryConfig config)) + 1"
    by (simp add: retryWithBackoff_def)
  from all obtain e where e: "fn (nat (maxRetries (mergeRetryConfig config))) = Inl e" by blast
  with r show "\<exists>e. fn (nat (maxRetries (mergeRetryConfig config))) = Inl e \<and>
                 outcome (retryWithBackoff fn config) = Inl (Some e)"
    by (simp add: retryWithBackoff_def)
qed

theorem invocation_count_code_retryable_witness:
  "calls (retryWithBackoff (always_fails (ValidationError ''Invalid Ethereum address format'' [(''address'', ''0x12'')])) no_retry_config) = 1 \<and>
   outcome (retryWithBackoff (always_fails (ValidationError ''Invalid Ethereum address format'' [(''address'', ''0x12'')])) no_retry_config)
     = Inl (Some (ValidationError ''Invalid Ethereum address format'' [(''address'', ''0x12'')])) \<and>
   calls (retryWithBackoff (always_fails (NetworkError ''Request timeout after 30000ms'')) no_retry_config) = 4 \<and>
   outcome (retryWithBackoff (always_fails (NetworkError ''Request timeout after 30000ms'')) no_retry_config)
     = Inl (Some (NetworkError ''Request timeout after 30000ms''))"
proof -
  have m: "maxRetries (mergeRetryConfig no_retry_config) = 3"
    by (simp add: mergeRetryConfig_def no_retry_config_def DEFAULT_RETRY_CONFIG_def)
  have h: "0 \<le> maxRetries (mergeRetryConfig no_retry_config)" by (simp add: m)
  let ?v = "ValidationError ''Invalid Ethereum address format'' [(''address'', ''0x12'')]"
  let ?n = "NetworkError ''Request timeout after 30000ms''"
  have a: "always_fails ?v 0 = Inl ?v \<and> \<not> isRetryableError ?v (mergeRetryConfig no_retry_config)"
    by (simp add: always_fails_def)
  have b: "\<forall>i. \<exists>e. always_fails ?n i = Inl e \<and> isRetryableError e (mergeRetryConfig no_retry_config)"
    by (simp add: always_fails_def)
  from invocation_count_code_retryable[OF h, of "always_fails ?v"] a
  have 1: "calls (retryWithBackoff (always_fails ?v) no_retry_config) = 1 \<and>
           outcome (retryWithBackoff (always_fails ?v) no_retry_config) = Inl (Some ?v)"
    by blast
  have l: "always_fails ?n (nat 3) = Inl ?n" by (simp add: always_fails_def)
  from invocation_count_code_retryable[OF h, of "always_fails ?n"] b
  have "calls (retryWithBackoff (always_fails ?n) no_retry_config) = nat 3 + 1 \<and>
        (\<exists>e. always_fails ?n (nat 3) = Inl e \<and>
             outcome (retryWithBackoff (always_fails ?n) no_retry_config) = Inl (Some e))"
    unfolding m by blast
  with l have 2: "calls (retryWithBackoff (always_fails ?n) no_retry_config) = 4 \<and>
           outcome (retryWithBackoff (always_fails ?n) no_retry_config) = Inl (Some ?n)"
    by auto
  from 1 2 show ?thesis by simp
qed

text \<open>
  With a negative \<open>maxRetries\<close> the loop body never runs: the operation is not invoked at
  all and \<open>throw lastError\<close> throws \<open>undefined\<close>.
\<close>

lemma negative_maxRetries_never_invokes:
  "maxRetries (mergeRetryConfig config) < 0 \<Longrightarrow>
   retryWithBackoff fn config = \<lparr> outcome = Inl None, calls = 0, waits = [] \<rparr>"
  by (simp add: retryWithBackoff_def retryLoop.simps)

text \<open>
  C3, as stated, fails for a rate-limit error whose server-specified retry-after is 0
  seconds: \<open>error.retryAfter\<close> is then falsy, and the delays waited are the computed
  backoff 1000, 2000, 4000 ms, not the 0 ms the server asked for.
\<close>

theorem retry_after_zero_counterexample:
  "waits (retryWithBackoff (always_fails (RateLimitError ''Rate limit exceeded. Please retry later.'' (Some 0)))
            no_retry_config) = [1000, 2000, 4000]"
  by (simp add: retryWithBackoff_def retryLoop.simps always_fails_def
      no_retry_config_def mergeRetryConfig_def DEFAULT_RETRY_CONFIG_def calculateDelay_def)

text \<open>
  C3, amended. When the invocations up to attempt \<open>k\<close> (0-indexed) all fail with a
  retryable error and \<open>k < maxRetries\<close>, a delay is waited after attempt \<open>k\<close>, and it is:
  \<open>retryAfter * 1000\<close> ms when the failure at attempt \<open>k\<close> is a rate-limit error carrying
  a non-zero retry-after (in seconds); otherwise
  \<open>min (initialDelay * backoffMultiplier ^ k) maxDelay\<close>.
\<close>

theorem retry_delay_formula:
  assumes "\<forall>i\<le>k. \<exists>e. fn i = Inl e \<and> isRetryableError e (mergeRetryConfig config)"
    and "int k < maxRetries (mergeRetryConfig config)"
  shows "k < length (waits (retryWithBackoff fn config)) \<and>
         (\<forall>m r. fn k = Inl (RateLimitError m (Some r)) \<and> r \<noteq> 0 \<longrightarrow>
            waits (retryWithBackoff fn config) ! k = r * 1000) \<and>
         ((\<nexists>m r. fn k = Inl (RateLimitError m (Some r)) \<and> r \<noteq> 0) \<longrightarrow>
            waits (retryWithBackoff fn config) ! k =
              min (initialDelay (mergeRetryConfig config) * backoffMultiplier (mergeRetryConfig config) ^ k)
                  (maxDelay (mergeRetryConfig config)))"
proof -
  let ?c = "mergeRetryConfig config"
  from retryLoop_wait_at[OF assms(1,2), of 0 "[]" None]
  obtain e where len: "k < length (waits (retryWithBackoff fn config))"
    and e: "fn k = Inl e" and w: "waits (retryWithBackoff fn config) ! k = retryDelay e k ?c"
    by (auto simp: retryWithBackoff_def)
  have 1: "\<forall>m r. fn k = Inl (RateLimitError m (Some r)) \<and> r \<noteq> 0 \<longrightarrow>
            waits (retryWithBackoff fn config) ! k = r * 1000"
    using e w by auto
  have 2: "(\<nexists>m r. fn k = Inl (RateLimitError m (Some r)) \<and> r \<noteq> 0) \<longrightarrow>
            waits (retryWithBackoff fn config) ! k =
              min (initialDelay ?c * backoffMultiplier ?c ^ k) (maxDelay ?c)"
  proof
    assume n: "\<nexists>m r. fn k = Inl (RateLimitError m (Some r)) \<and> r \<noteq> 0"
    have "retryDelay e k ?c = calculateDelay k ?c"
    proof (cases e)
      case (RateLimitError m ro)
      with n e show ?thesis by (cases ro) auto
    qed simp_all
    with w show "waits (retryWithBackoff fn config) ! k =
              min (initialDelay ?c * backoffMultiplier ?c ^ k) (maxDelay ?c)"
      by (simp add: calculateDelay_def)
  qed
  from len 1 2 show ?thesis by blast
qed

theorem retry_delay_formula_witness:
  "waits (retryWithBackoff (always_fails (RateLimitError ''Rate limit exceeded. Retry after 7 seconds'' (Some 7))) no_retry_config) ! 2 = 7000 \<and>
   waits (retryWithBackoff (always_fails (NetworkError ''Request timeout after 30000ms'')) no_retry_config) ! 2 = 4000"
proof -
  let ?c = "mergeRetryConfig no_retry_config"
  let ?r = "RateLimitError ''Rate limit exceeded. Retry after 7 seconds'' (Some 7)"
  let ?n = "NetworkError ''Request timeout after 30000ms''"
  have c: "maxRetries ?c = 3" "initialDelay ?c = 1000" "backoffMultiplier ?c = 2" "maxDelay ?c = 10000"
    by (simp_all add: mergeRetryConfig_def no_retry_config_def DEFAULT_RETRY_CONFIG_def)
  have k: "int 2 < maxRetries ?c" by (simp add: c)
  have a: "\<forall>i\<le>2. \<exists>e. always_fails ?r i = Inl e \<and> isRetryableError e ?c"
    by (simp add: always_fails_def)
  have b: "\<forall>i\<le>2. \<exists>e. always_fails ?n i = Inl e \<and> isRetryableError e ?c"
    by (simp add: always_fails_def)
  have fr: "always_fails ?r 2 = Inl ?r" by (simp add: always_fails_def)
  have fn: "\<nexists>m r. always_fails ?n 2 = Inl (RateLimitError m (Some r)) \<and> r \<noteq> 0"
    by (simp add: always_fails_def)
  have nz: "(7::rat) \<noteq> 0" by simp
  note tr = retry_delay_formula[OF a k]
  from tr[THEN conjunct2, THEN conjunct1, rule_format, OF conjI[OF fr nz]]
  have 1: "waits (retryWithBackoff (always_fails ?r) no_retry_config) ! 2 = 7000"
    by simp
  note tn = retry_delay_formula[OF b k]
  from tn[THEN conjunct2, THEN conjunct2, rule_format, OF fn]
  have 2: "waits (retryWithBackoff (always_fails ?n) no_retry_config) ! 2 = 4000"
    by (simp add: c)
  from 1 2 show ?thesis by simp
qed

section \<open>Properties of the rate limiter\<close>

lemma finite_limiterD:
  assumes "finite_limiter a m now s"
  obtains t u where "requestsPerSecond s = Fin a" "requestsPerMinute s = Fin m"
    "secondTokens s = Fin t" "0 \<le> t" "t \<le> a" "minuteTokens s = Fin u" "0 \<le> u" "u \<le> m"
    "secondLastRefill s \<le> now" "minuteLastRefill s \<le> now"
  using assms unfolding finite_limiter_def by (auto split: jsnum.splits)

lemma finite_limiter_mono:
  "finite_limiter a m now s \<Longrightarrow> now \<le> now' \<Longrightarrow> finite_limiter a m now' s"
  unfolding finite_limiter_def by auto

lemma finite_limiter_frame:
  assumes "finite_limiter a m now s"
    and "requestsPerSecond s' = requestsPerSecond s" "requestsPerMinute s' = requestsPerMinute s"
    and "secondTokens s' = secondTokens s" "minuteTokens s' = minuteTokens s"
    and "secondLastRefill s' = secondLastRefill s" "minuteLastRefill s' = minuteLastRefill s"
  shows "finite_limiter a m now s'"
  using assms unfolding finite_limiter_def by simp

lemma refillTokens_finite:
  assumes inv: "finite_limiter a m now0 s" and le: "now0 \<le> now"
  shows "finite_limiter a m now (refillTokens now s)"
proof -
  from inv obtain t u where f: "requestsPerSecond s = Fin a" "requestsPerMinute s = Fin m"
    "secondTokens s = Fin t" "0 \<le> t" "t \<le> a" "minuteTokens s = Fin u" "0 \<le> u" "u \<le> m"
    "secondLastRefill s \<le> now0" "minuteLastRefill s \<le> now0"
    by (rule finite_limiterD)
  have a0: "0 \<le> a" and m0: "0 \<le> m" using f by linarith+
  have e1: "0 \<le> (of_int (now - secondLastRefill s) :: rat) / 1000"
    using f le by simp
  have e2: "0 \<le> (of_int (now - minuteLastRefill s) :: rat) / 60000"
    using f le by simp
  have p1: "0 \<le> (of_int (now - secondLastRefill s) :: rat) / 1000 * a"
    using e1 a0 by (rule mult_nonneg_nonneg)
  have p2: "0 \<le> (of_int (now - minuteLastRefill s) :: rat) / 60000 * m"
    using e2 m0 by (rule mult_nonneg_nonneg)
  show ?thesis
    using f le p1 p2 a0 m0
    unfolding finite_limiter_def refillTokens_def Let_def
    by (auto simp: js_min_def min_def)
qed

lemma consumeTokens_finite:
  assumes inv: "finite_limiter a m now s"
  shows "finite_limiter a m now (consumeTokens s)"
proof -
  from inv obtain t u where f: "requestsPerSecond s = Fin a" "requestsPerMinute s = Fin m"
    "secondTokens s = Fin t" "0 \<le> t" "t \<le> a" "minuteTokens s = Fin u" "0 \<le> u" "u \<le> m"
    "secondLastRefill s \<le> now" "minuteLastRefill s \<le> now"
    by (rule finite_limiterD)
  show ?thesis
    using f unfolding finite_limiter_def consumeTokens_def
    by (auto simp: js_max_def js_sub_def)
qed

lemma canMakeRequest_finite:
  assumes "finite_limiter a m now0 s" "now0 \<le> now"
  shows "finite_limiter a m now (snd (canMakeRequest now s))"
  using assms refillTokens_finite[OF assms] finite_limiter_mono[OF assms]
  by (simp add: canMakeRequest_def Let_def)

lemma tryAcquire_finite:
  assumes "finite_limiter a m now0 s" "now0 \<le> now"
  shows "finite_limiter a m now (snd (tryAcquire now s))"
proof -
  note c = canMakeRequest_finite[OF assms]
  show ?thesis
    using c consumeTokens_finite[OF c] finite_limiter_mono[OF assms]
    by (auto simp: tryAcquire_def split: prod.splits)
qed

lemma calculateDelay_finite:
  assumes "finite_limiter a m now0 s" "now0 \<le> now"
  shows "finite_limiter a m now (snd (RateLimiter_calculateDelay now s))"
  using refillTokens_finite[OF assms] finite_limiter_mono[OF assms]
  by (simp add: RateLimiter_calculateDelay_def Let_def)

lemma finishQueue_finite:
  "finite_limiter a m now s \<Longrightarrow> finite_limiter a m now (finishQueue its q s)"
  by (erule finite_limiter_frame) (simp_all add: finishQueue_def)

lemma processLoop_finite:
  assumes "finite_limiter a m now s"
  shows "finite_limiter a m now (fst (processLoop now its q s))"
  using assms
proof (induction q arbitrary: its s)
  case Nil
  then show ?case by (simp add: finishQueue_finite)
next
  case (Cons w q)
  obtain ok s2 where c: "canMakeRequest now s = (ok, s2)" by (cases "canMakeRequest now s")
  from canMakeRequest_finite[OF Cons.prems order_refl] c
  have s2: "finite_limiter a m now s2" by simp
  show ?case
  proof (cases "its < 1000")
    case False
    with Cons.prems show ?thesis by (simp add: finishQueue_finite)
  next
    case True
    show ?thesis
    proof (cases ok)
      case True
      have "finite_limiter a m now (consumeTokens s2 \<lparr> resolved := resolved s2 @ [w] \<rparr>)"
        by (rule finite_limiter_frame[OF consumeTokens_finite[OF s2]]) (simp_all add: consumeTokens_def)
      from Cons.IH[OF this] \<open>its < 1000\<close> c True show ?thesis by simp
    next
      case False
      obtain d s3 where d: "RateLimiter_calculateDelay now s2 = (d, s3)"
        by (cases "RateLimiter_calculateDelay now s2")
      from calculateDelay_finite[OF s2 order_refl] d have "finite_limiter a m now s3" by simp
      then have "finite_limiter a m now (s3 \<lparr> queue := w # q, iterations := its + 1 \<rparr>)"
        by (rule finite_limiter_frame) simp_all
      with \<open>its < 1000\<close> c False d show ?thesis by simp
    qed
  qed
qed

lemma apply_op_finite:
  assumes "finite_limiter a m now0 s" "now0 \<le> now"
  shows "finite_limiter a m now (apply_op now op s)"
proof (cases op)
  case (Acquire w)
  have 1: "finite_limiter a m now (s \<lparr> resolved := resolved s @ [w] \<rparr>)"
    by (rule finite_limiter_frame[OF finite_limiter_mono[OF assms]]) simp_all
  have 2: "finite_limiter a m now (s \<lparr> queue := queue s @ [w] \<rparr>)"
    by (rule finite_limiter_frame[OF finite_limiter_mono[OF assms]]) simp_all
  have 3: "finite_limiter a m now (s \<lparr> queue := queue s @ [w], processing := True \<rparr>)"
    by (rule finite_limiter_frame[OF finite_limiter_mono[OF assms]]) simp_all
  from Acquire 1 2 processLoop_finite[OF 3] show ?thesis
    by (simp add: acquire_def processQueue_def)
next
  case Resume
  with processLoop_finite[OF finite_limiter_mono[OF assms]] finite_limiter_mono[OF assms]
  show ?thesis by (simp add: resumeQueue_def)
next
  case TryAcquire
  with tryAcquire_finite[OF assms] show ?thesis by simp
next
  case RefillTokens
  with refillTokens_finite[OF assms] show ?thesis by simp
next
  case ConsumeTokens
  with consumeTokens_finite[OF finite_limiter_mono[OF assms]] show ?thesis by simp
qed

lemma run_ops_finite:
  "finite_limiter a m now s \<Longrightarrow> \<exists>now'. finite_limiter a m now' (run_ops now s ops)"
proof (induction ops arbitrary: now s)
  case Nil
  then show ?case by auto
next
  case (Cons x ops)
  obtain d op where x: "x = (d, op)" by (cases x)
  have "finite_limiter a m (now + int d) (apply_op (now + int d) op s)"
    by (rule apply_op_finite[OF Cons.prems]) simp
  from Cons.IH[OF this] x show ?case by simp
qed

lemma finite_limiter_in_range: "finite_limiter a m now s \<Longrightarrow> tokens_in_range s"
  unfolding finite_limiter_def tokens_in_range_def by (auto split: jsnum.splits)

lemma RateLimiter_new_finite:
  assumes "requestsPerSecond_cfg config = Some (Fin a)" "0 < a"
    and "requestsPerMinute_cfg config = Some (Fin m)" "0 < m"
  shows "finite_limiter a m now (RateLimiter_new config now)"
  using assms by (simp add: finite_limiter_def RateLimiter_new_def or_Infinity_def)

text \<open>
  For a limiter constructed with two finite positive capacities, after every history of
  \<open>acquire\<close>, queue resumption, \<open>tryAcquire\<close>, \<open>refillTokens\<close> and \<open>consumeTokens\<close>
  steps (with a clock that never goes back) both token counts satisfy
  \<open>0 <= tokens <= capacity\<close>.
\<close>

theorem tokens_stay_in_range:
  assumes "requestsPerSecond_cfg config = Some (Fin a)" "0 < a"
    and "requestsPerMinute_cfg config = Some (Fin m)" "0 < m"
  shows "tokens_in_range (run_ops now (RateLimiter_new config now) ops)"
proof -
  from run_ops_finite[OF RateLimiter_new_finite[OF assms]]
  obtain now' where "finite_limiter a m now' (run_ops now (RateLimiter_new config now) ops)"
    by blast
  then show ?thesis by (rule finite_limiter_in_range)
qed

theorem tokens_stay_in_range_witness:
  "tokens_in_range
     (run_ops 1000 (RateLimiter_new ethereum_limiter_config 1000)
        [(0, Acquire 1), (0, TryAcquire), (0, Acquire 2), (0, Acquire 3), (0, Acquire 4),
         (100, Resume), (50, RefillTokens), (0, ConsumeTokens), (900, TryAcquire)])"
proof -
  have c: "requestsPerSecond_cfg ethereum_limiter_config = Some (Fin 4)"
    "requestsPerMinute_cfg ethereum_limiter_config = Some (Fin 300)"
    by (simp_all add: ethereum_limiter_config_def)
  have p: "(0::rat) < 4" "(0::rat) < 300" by simp_all
  from tokens_stay_in_range[OF c(1) p(1) c(2) p(2)] show ?thesis .
qed

text \<open>
  C4. Claimed: from a freshly constructed limiter, both token counts always satisfy
  \<open>0 <= tokens <= capacity\<close>. For a limiter constructed without limits (both capacities
  default to \<open>Infinity\<close>) a \<open>tryAcquire()\<close> in the millisecond of the construction
  computes \<open>tokensToAdd = 0 * Infinity = NaN\<close>; both token counts become \<open>NaN\<close>, which
  is not within \<open>[0, Infinity]\<close>, and the call is refused.
\<close>

theorem default_limiter_tokens_nan:
  "secondTokens (run_ops now (RateLimiter_new empty_limiter_config now) [(0, TryAcquire)]) = NaN \<and>
   minuteTokens (run_ops now (RateLimiter_new empty_limiter_config now) [(0, TryAcquire)]) = NaN \<and>
   \<not> tokens_in_range (run_ops now (RateLimiter_new empty_limiter_config now) [(0, TryAcquire)]) \<and>
   fst (tryAcquire now (RateLimiter_new empty_limiter_config now)) = False"
  by (simp add: RateLimiter_new_def empty_limiter_config_def or_Infinity_def tryAcquire_def
      canMakeRequest_def refillTokens_def Let_def js_min_def js_ge_def tokens_in_range_def)

text \<open>
  The same happens to the long window alone when only \<open>requestsPerSecond\<close> is configured.
\<close>

lemma unset_minute_limit_refuses_first_call:
  "fst (tryAcquire now (RateLimiter_new
          \<lparr> requestsPerSecond_cfg = Some (Fin 3), requestsPerMinute_cfg = None, enabled_cfg = None \<rparr>
          now)) = False"
  by (simp add: RateLimiter_new_def or_Infinity_def tryAcquire_def
      canMakeRequest_def refillTokens_def Let_def js_min_def js_ge_def)

lemma ethereum_limiter_exhausted:
  "tryAcquire_times 4 now (RateLimiter_new ethereum_limiter_config now) =
     ([True, True, True, True],
      (RateLimiter_new ethereum_limiter_config now) \<lparr> secondTokens := Fin 0, minuteTokens := Fin 296 \<rparr>)"
  by (simp add: numeral_eq_Suc RateLimiter_new_def ethereum_limiter_config_def or_Infinity_def
      tryAcquire_def canMakeRequest_def refillTokens_def consumeTokens_def Let_def js_min_def
      js_max_def js_sub_def js_ge_def)

text \<open>
  The Ethereum provider's limiter (4 per second, 300 per minute), 250 ms after its
  construction: \<open>refillTokens\<close> credits \<open>0.25 * 4 = 1\<close> token without advancing
  \<open>secondLastRefill\<close>, so every call made at that instant finds the token it needs.
\<close>

lemma ethereum_limiter_first_call:
  "tryAcquire (now + 250) (RateLimiter_new ethereum_limiter_config now) =
     (True, (RateLimiter_new ethereum_limiter_config now)
              \<lparr> secondTokens := Fin 3, minuteTokens := Fin 299 \<rparr>)"
  by (simp add: RateLimiter_new_def ethereum_limiter_config_def or_Infinity_def tryAcquire_def
      canMakeRequest_def refillTokens_def consumeTokens_def Let_def js_min_def js_max_def
      js_sub_def js_ge_def)

lemma ethereum_limiter_later_call:
  "tryAcquire (now + 250)
     ((RateLimiter_new ethereum_limiter_config now) \<lparr> secondTokens := Fin 3, minuteTokens := Fin 299 \<rparr>) =
     (True, (RateLimiter_new ethereum_limiter_config now)
              \<lparr> secondTokens := Fin 3, minuteTokens := Fin 299 \<rparr>)"
  by (simp add: RateLimiter_new_def ethereum_limiter_config_def or_Infinity_def tryAcquire_def
      canMakeRequest_def refillTokens_def consumeTokens_def Let_def js_min_def js_max_def
      js_sub_def js_ge_def)

lemma ethereum_limiter_later_calls:
  "tryAcquire_times k (now + 250)
     ((RateLimiter_new ethereum_limiter_config now) \<lparr> secondTokens := Fin 3, minuteTokens := Fin 299 \<rparr>) =
     (replicate k True, (RateLimiter_new ethereum_limiter_config now)
              \<lparr> secondTokens := Fin 3, minuteTokens := Fin 299 \<rparr>)"
  by (induction k) (simp_all add: ethereum_limiter_later_call)

text \<open>
  So a burst of any number \<open>k\<close> of calls made 250 ms after the construction is admitted
  whole. (\<open>refillTokens\<close> advances \<open>secondLastRefill\<close> only on a full refill.)
\<close>

lemma burst_after_partial_window_never_refused:
  "fst (tryAcquire_times k (now + 250) (RateLimiter_new ethereum_limiter_config now)) =
     replicate k True"
  by (cases k) (simp_all add: ethereum_limiter_first_call ethereum_limiter_later_calls)

text \<open>
  C5. Claimed: on a freshly constructed enabled limiter with short-window capacity \<open>N\<close>,
  with no time elapsing between the calls, the first \<open>N\<close> calls of \<open>tryAcquire()\<close> return
  true and every later call returns false until a refill interval elapses. On the
  Ethereum provider's limiter (\<open>N = 4\<close>: one token per 250 ms), newly constructed: six
  calls in a row made 250 ms after the construction all return true; and when the first
  four calls are made at the instant of the construction (they return true), three calls
  in a row made 100 ms later return false, false and true, each refused call having
  credited \<open>0.1 * 4\<close> tokens again.
\<close>

theorem burst_admitted_beyond_capacity:
  "fst (tryAcquire_times 6 (now + 250) (RateLimiter_new ethereum_limiter_config now)) =
     [True, True, True, True, True, True] \<and>
   fst (tryAcquire_times 4 now (RateLimiter_new ethereum_limiter_config now)) =
     [True, True, True, True] \<and>
   fst (tryAcquire_times 3 (now + 100)
          (snd (tryAcquire_times 4 now (RateLimiter_new ethereum_limiter_config now)))) =
     [False, False, True]"
proof -
  have "fst (tryAcquire_times 6 (now + 250) (RateLimiter_new ethereum_limiter_config now)) =
          replicate 6 True"
    by (rule burst_after_partial_window_never_refused)
  then have a: "fst (tryAcquire_times 6 (now + 250) (RateLimiter_new ethereum_limiter_config now)) =
          [True, True, True, True, True, True]"
    by (simp add: numeral_eq_Suc)
  have b: "fst (tryAcquire_times 4 now (RateLimiter_new ethereum_limiter_config now)) =
     [True, True, True, True] \<and>
   fst (tryAcquire_times 3 (now + 100)
          (snd (tryAcquire_times 4 now (RateLimiter_new ethereum_limiter_config now)))) =
     [False, False, True]"
    unfolding ethereum_limiter_exhausted
    by (simp add: numeral_eq_Suc RateLimiter_new_def ethereum_limiter_config_def or_Infinity_def
        tryAcquire_def canMakeRequest_def refillTokens_def consumeTokens_def Let_def js_min_def
        js_max_def js_sub_def js_ge_def)
  from a b show ?thesis by simp
qed

text \<open>
  What does hold: a burst made at the instant of the construction itself.
\<close>

lemma burst_refill: "burst_state a m now j u s \<Longrightarrow> refillTokens now s = s"
  by (simp add: burst_state_def refillTokens_def Let_def js_min_def)

lemma burst_tryAcquire_empty:
  "burst_state a m now 0 u s \<Longrightarrow> tryAcquire now s = (False, s)"
  by (frule burst_refill) (simp add: burst_state_def tryAcquire_def canMakeRequest_def Let_def js_ge_def)

lemma burst_tryAcquire_Suc:
  assumes "burst_state a m now (Suc j) u s"
  shows "tryAcquire now s = (True, s \<lparr> secondTokens := Fin (of_nat j), minuteTokens := Fin (u - 1) \<rparr>) \<and>
         burst_state a m now j (u - 1) (s \<lparr> secondTokens := Fin (of_nat j), minuteTokens := Fin (u - 1) \<rparr>)"
proof -
  from assms have u: "1 \<le> u" and j: "(1::rat) \<le> of_nat (Suc j)"
    unfolding burst_state_def by (auto simp: algebra_simps)
  from assms u show ?thesis
    by (simp add: burst_refill[OF assms] burst_state_def tryAcquire_def canMakeRequest_def Let_def
        js_ge_def consumeTokens_def js_max_def js_sub_def algebra_simps)
qed

lemma burst_times:
  "burst_state a m now j u s \<Longrightarrow>
     fst (tryAcquire_times k now s) = replicate (min k j) True @ replicate (k - j) False \<and>
     secondTokens (snd (tryAcquire_times k now s)) = Fin (of_nat (j - k)) \<and>
     minuteTokens (snd (tryAcquire_times k now s)) = Fin (u - of_nat (min k j))"
proof (induction k arbitrary: j u s)
  case 0
  then show ?case by (simp add: burst_state_def)
next
  case (Suc k)
  show ?case
  proof (cases j)
    case 0
    with Suc.prems have t: "tryAcquire now s = (False, s)" by (simp add: burst_tryAcquire_empty)
    from Suc.IH[OF Suc.prems] 0 t show ?thesis
      by (simp add: split_beta replicate_append_same)
  next
    case (Suc j')
    let ?s' = "s \<lparr> secondTokens := Fin (of_nat j'), minuteTokens := Fin (u - 1) \<rparr>"
    from burst_tryAcquire_Suc[of a m now j' u s] Suc.prems Suc
    have t: "tryAcquire now s = (True, ?s')" and b: "burst_state a m now j' (u - 1) ?s'"
      by simp_all
    from Suc.IH[OF b] Suc t show ?thesis
      by (simp add: split_beta algebra_simps)
  qed
qed

text \<open>
  On an enabled limiter with finite capacities \<open>N\<close> (a positive integer) and \<open>m >= N\<close>,
  \<open>k\<close> calls of \<open>tryAcquire()\<close> all made at the instant of the construction: the first
  \<open>N\<close> return true, the later ones false, and each call that returned true took exactly
  one token from each bucket. A disabled limiter returns true and is left unchanged.
\<close>

theorem tryAcquire_burst_at_construction:
  assumes "requestsPerSecond_cfg config = Some (Fin (of_nat N))" and "0 < N"
    and "requestsPerMinute_cfg config = Some (Fin m)" and "of_nat N \<le> m"
  shows "(enabled_cfg config \<noteq> Some False \<longrightarrow>
            fst (tryAcquire_times k now (RateLimiter_new config now)) =
              replicate (min k N) True @ replicate (k - N) False \<and>
            secondTokens (snd (tryAcquire_times k now (RateLimiter_new config now))) =
              Fin (of_nat (N - k)) \<and>
            minuteTokens (snd (tryAcquire_times k now (RateLimiter_new config now))) =
              Fin (m - of_nat (min k N))) \<and>
         (enabled_cfg config = Some False \<longrightarrow>
            tryAcquire now' (RateLimiter_new config now) = (True, RateLimiter_new config now))"
proof (intro conjI impI)
  assume "enabled_cfg config = Some False"
  then show "tryAcquire now' (RateLimiter_new config now) = (True, RateLimiter_new config now)"
    by (simp add: tryAcquire_def RateLimiter_new_def)
next
  assume en: "enabled_cfg config \<noteq> Some False"
  from assms have "(of_nat N :: rat) \<noteq> 0" by simp
  with assms en have b: "burst_state (of_nat N) m now N m (RateLimiter_new config now)"
    by (simp add: burst_state_def RateLimiter_new_def or_Infinity_def)
  note t = burst_times[OF b, of k]
  from t show "fst (tryAcquire_times k now (RateLimiter_new config now)) =
              replicate (min k N) True @ replicate (k - N) False" by simp
  from t show "secondTokens (snd (tryAcquire_times k now (RateLimiter_new config now))) =
              Fin (of_nat (N - k))" by simp
  from t show "minuteTokens (snd (tryAcquire_times k now (RateLimiter_new config now))) =
              Fin (m - of_nat (min k N))" by simp
qed

theorem tryAcquire_burst_at_construction_witness:
  "fst (tryAcquire_times 6 1000 (RateLimiter_new ethereum_limiter_config 1000)) =
     [True, True, True, True, False, False] \<and>
   secondTokens (snd (tryAcquire_times 6 1000 (RateLimiter_new ethereum_limiter_config 1000))) = Fin 0 \<and>
   minuteTokens (snd (tryAcquire_times 6 1000 (RateLimiter_new ethereum_limiter_config 1000))) = Fin 296"
proof -
  have c: "requestsPerSecond_cfg ethereum_limiter_config = Some (Fin (of_nat 4))"
    "requestsPerMinute_cfg ethereum_limiter_config = Some (Fin 300)"
    "enabled_cfg ethereum_limiter_config \<noteq> Some False"
    by (simp_all add: ethereum_limiter_config_def)
  have n: "(0::nat) < 4" and m: "(of_nat 4 :: rat) \<le> 300" by simp_all
  from tryAcquire_burst_at_construction[OF c(1) n c(2) m, of 6 1000] c(3)
  show ?thesis by (simp add: numeral_eq_Suc)
qed

section \<open>Properties of the providers\<close>

text \<open>Under the providers' retry configuration, a first request that succeeds is the only one.\<close>

lemma provider_retry_first_success:
  "fn 0 = Inr d \<Longrightarrow> retryWithBackoff fn provider_retry_config = \<lparr> outcome = Inr d, calls = 1, waits = [] \<rparr>"
  by (simp add: retryWithBackoff_def retryLoop.simps provider_retry_config_def no_retry_config_def
      mergeRetryConfig_def DEFAULT_RETRY_CONFIG_def)

text \<open>
  C6, as stated, says the provider error carries the result string as its message. For
  the body \<open>{status: "0", message: "NOTOK", result: "Invalid API Key"}\<close> the message is
  \<open>Etherscan API error: Invalid API Key\<close>, not \<open>Invalid API Key\<close>.
\<close>

theorem etherscan_error_message_counterexample:
  "fst (EthereumProvider_getTransactions (Some ''test-key'') None
          (always_responds mockEtherscanErrorResponse) example_transform
          ''0x742d35cc6634c0532925a3b844bc9e7595f0beb0'' no_options) =
     Inl (ProviderError ''Etherscan API error: Invalid API Key'' (Some ''Etherscan'') None) \<and>
   ''Etherscan API error: Invalid API Key'' \<noteq> ''Invalid API Key''"
  by (simp add: EthereumProvider_getTransactions_def string_or_def Let_def
      provider_retry_first_success always_responds_def mockEtherscanErrorResponse_def
      EthereumProvider_handleResponse_def)

text \<open>
  C6, amended. With an API key configured, the limiter admitting the call and a response
  body \<open>d\<close> received whose status is \<open>"0"\<close> and whose result is a string \<open>s\<close>: when \<open>s\<close>
  contains \<open>No transactions found\<close>, \<open>getTransactions\<close> returns the empty page with
  \<open>hasMore = false\<close> (no error); otherwise it throws a provider error whose provider is
  \<open>Etherscan\<close> and whose message is \<open>Etherscan API error: \<close> followed by \<open>s\<close>.
\<close>

theorem etherscan_status_zero:
  assumes "string_or apiKey [] \<noteq> []" and "acquired = None"
    and "outcome (retryWithBackoff httpRequest provider_retry_config) = Inr d"
    and "es_status d = ''0''" and "es_result d = ResultString s"
  shows "(string_includes s ''No transactions found'' \<longrightarrow>
            fst (EthereumProvider_getTransactions apiKey acquired httpRequest
                   transformTransaction address options) =
              Inr \<lparr> data = [],
                    pagination = \<lparr> total = Some 0, page_number = Some (requestedPage options),
                                   totalPages = Some 0, nextCursor = None, hasMore = False \<rparr> \<rparr>) \<and>
         (\<not> string_includes s ''No transactions found'' \<longrightarrow>
            fst (EthereumProvider_getTransactions apiKey acquired httpRequest
                   transformTransaction address options) =
              Inl (ProviderError (''Etherscan API error: '' @ s) (Some ''Etherscan'') None))"
  using assms
  by (simp add: EthereumProvider_getTransactions_def Let_def EthereumProvider_handleResponse_def)

theorem etherscan_status_zero_witness:
  "fst (EthereumProvider_getTransactions (Some ''test-key'') None
          (always_responds mockEtherscanNoTransactionsResponse) example_transform
          ''0x742d35cc6634c0532925a3b844bc9e7595f0beb0'' no_options) =
     Inr \<lparr> data = [],
           pagination = \<lparr> total = Some 0, page_number = Some (requestedPage no_options),
                          totalPages = Some 0, nextCursor = None, hasMore = False \<rparr> \<rparr> \<and>
   fst (EthereumProvider_getTransactions (Some ''test-key'') None
          (always_responds mockEtherscanErrorResponse) example_transform
          ''0x742d35cc6634c0532925a3b844bc9e7595f0beb0'' no_options) =
     Inl (ProviderError (''Etherscan API error: '' @ ''Invalid API Key'') (Some ''Etherscan'') None)"
proof -
  have k: "string_or (Some ''test-key'') [] \<noteq> []" by (simp add: string_or_def)
  have o1: "outcome (retryWithBackoff (always_responds mockEtherscanNoTransactionsResponse)
              provider_retry_config) = Inr mockEtherscanNoTransactionsResponse"
    by (simp add: provider_retry_first_success always_responds_def)
  have o2: "outcome (retryWithBackoff (always_responds mockEtherscanErrorResponse)
              provider_retry_config) = Inr mockEtherscanErrorResponse"
    by (simp add: provider_retry_first_success always_responds_def)
  have s1: "es_status mockEtherscanNoTransactionsResponse = ''0''"
    "es_result mockEtherscanNoTransactionsResponse = ResultString ''No transactions found''"
    "string_includes ''No transactions found'' ''No transactions found''"
    by (simp_all add: mockEtherscanNoTransactionsResponse_def)
  have s2: "es_status mockEtherscanErrorResponse = ''0''"
    "es_result mockEtherscanErrorResponse = ResultString ''Invalid API Key''"
    "\<not> string_includes ''Invalid API Key'' ''No transactions found''"
    by (simp_all add: mockEtherscanErrorResponse_def)
  note t1 = etherscan_status_zero[OF k refl o1 s1(1) s1(2), THEN conjunct1, rule_format, OF s1(3)]
  note t2 = etherscan_status_zero[OF k refl o2 s2(1) s2(2), THEN conjunct2, rule_format, OF s2(3)]
  from t1 t2 show ?thesis by blast
qed

lemma map_throwing_length: "map_throwing f xs = Inr ys \<Longrightarrow> length ys = length xs"
  by (induction xs arbitrary: ys) (auto split: sum.splits)

lemma requestedLimit_nonzero: "requestedLimit options \<noteq> 0"
  by (simp add: requestedLimit_def or_default_def split: option.splits)

lemma handleResponse_hasMore:
  assumes "EthereumProvider_handleResponse tf d limit_n pg = Inr r" and "limit_n \<noteq> 0"
  shows "hasMore (pagination r) \<longleftrightarrow> int (records_returned d) = limit_n"
proof (cases "es_result d")
  case (ResultString s)
  with assms show ?thesis
    by (auto simp: EthereumProvider_handleResponse_def records_returned_def split: if_splits)
next
  case (ResultArray raws)
  with assms obtain txs where t: "map_throwing tf raws = Inr txs"
    by (auto simp: EthereumProvider_handleResponse_def split: sum.splits)
  from map_throwing_length[OF t] assms ResultArray t show ?thesis
    by (auto simp: EthereumProvider_handleResponse_def records_returned_def Let_def)
next
  case ResultOther
  with assms show ?thesis by (simp add: EthereumProvider_handleResponse_def)
qed

lemma ethereum_hasMore:
  assumes "EthereumProvider_getTransactions apiKey acquired httpRequest tf address options = (Inr r, n)"
  shows "\<exists>d. outcome (retryWithBackoff httpRequest provider_retry_config) = Inr d \<and>
             (hasMore (pagination r) \<longleftrightarrow> int (records_returned d) = requestedLimit options)"
proof -
  from assms obtain d where d: "outcome (retryWithBackoff httpRequest provider_retry_config) = Inr d"
    and h: "EthereumProvider_handleResponse tf d (requestedLimit options) (requestedPage options) = Inr r"
    by (auto simp: EthereumProvider_getTransactions_def Let_def split: if_splits option.splits sum.splits)
  from handleResponse_hasMore[OF h requestedLimit_nonzero] d show ?thesis by blast
qed

lemma solana_hasMore:
  assumes "SolanaProvider_getTransactions sigEnv txEnv tf publicKey options = (Inr r, n)"
  shows "\<exists>signatures k. rpcRequest sigEnv = (Inr signatures, k) \<and>
           (hasMore (pagination r) \<longleftrightarrow>
              int (length (case signatures of None \<Rightarrow> [] | Some sigs \<Rightarrow> sigs)) = requestedLimit options) \<and>
           nextCursor (pagination r) =
             (if hasMore (pagination r)
              then Some (signature (last (case signatures of None \<Rightarrow> [] | Some sigs \<Rightarrow> sigs)))
              else None)"
proof -
  obtain res k where rk: "rpcRequest sigEnv = (res, k)" by (cases "rpcRequest sigEnv")
  with assms obtain signatures where s: "res = Inr signatures"
    by (cases res) (auto simp: SolanaProvider_getTransactions_def Let_def)
  have nz: "requestedLimit options \<noteq> 0" by (rule requestedLimit_nonzero)
  have "(hasMore (pagination r) \<longleftrightarrow>
           int (length (case signatures of None \<Rightarrow> [] | Some sigs \<Rightarrow> sigs)) = requestedLimit options) \<and>
        nextCursor (pagination r) =
          (if hasMore (pagination r)
           then Some (signature (last (case signatures of None \<Rightarrow> [] | Some sigs \<Rightarrow> sigs)))
           else None)"
  proof (cases signatures)
    case None
    with assms rk s nz show ?thesis
      by (auto simp: SolanaProvider_getTransactions_def Let_def)
  next
    case (Some sigs)
    show ?thesis
    proof (cases "sigs = []")
      case True
      with assms rk s nz Some show ?thesis
        by (auto simp: SolanaProvider_getTransactions_def Let_def)
    next
      case False
      with assms rk s Some show ?thesis
        by (auto simp: SolanaProvider_getTransactions_def Let_def split: sum.splits)
    qed
  qed
  with rk s show ?thesis by blast
qed

lemma ethereum_example_page:
  "EthereumProvider_getTransactions (Some ''test-key'') None
          (always_responds mockEtherscanSuccessResponse) example_transform
          ''0x742d35cc6634c0532925a3b844bc9e7595f0beb0'' (no_options \<lparr> limit := Some 2 \<rparr>) =
   (Inr \<lparr> data = [\<lparr> hash = ''0x1234'', timestamp = 1609459200000, status = SUCCESS, network = ETHEREUM_MAINNET \<rparr>,
                   \<lparr> hash = ''0xabcd'', timestamp = 1609459300000, status = SUCCESS, network = ETHEREUM_MAINNET \<rparr>],
          pagination = \<lparr> total = None, page_number = Some 1, totalPages = None, nextCursor = None,
                         hasMore = True \<rparr> \<rparr>, 1)"
  by (simp add: EthereumProvider_getTransactions_def string_or_def Let_def
      provider_retry_first_success always_responds_def mockEtherscanSuccessResponse_def
      EthereumProvider_handleResponse_def example_transform_def no_options_def
      requestedLimit_def requestedPage_def or_default_def)

lemma solana_example_page:
  "SolanaProvider_getTransactions example_sigEnv example_txEnv example_solana_transform
          ''9WzDXwBbmkg8ZTbNMqUxvQRAyrZzDsGYdLVL9zYtAWWM'' (no_options \<lparr> limit := Some 2 \<rparr>) =
   (Inr \<lparr> data = [\<lparr> hash = ''5VERv8NMvzbJ'', timestamp = 1609459200000, status = SUCCESS, network = SOLANA_MAINNET \<rparr>,
                   \<lparr> hash = ''2V7FshZJv8XH'', timestamp = 1609459300000, status = SUCCESS, network = SOLANA_MAINNET \<rparr>],
          pagination = \<lparr> total = None, page_number = None, totalPages = None,
                         nextCursor = Some ''2V7FshZJv8XH'', hasMore = True \<rparr> \<rparr>, 3)"
  by (simp add: SolanaProvider_getTransactions_def Let_def rpcRequest_def example_sigEnv_def
      example_txEnv_def provider_retry_first_success always_responds_def mockSolanaSignatures_def
      example_solana_transform_def no_options_def requestedLimit_def or_default_def upt_rec)

lemma map_throwing_replicate:
  "f x = Inr y \<Longrightarrow> map_throwing f (replicate n x) = Inr (replicate n y)"
  by (induction n) simp_all

lemma requestedLimit_eq:
  "requestedLimit options = (case limit options of None \<Rightarrow> 100 | Some L \<Rightarrow> if L = 0 then 100 else L)"
  by (simp add: requestedLimit_def or_default_def)

lemma ethereum_page_returned:
  assumes "string_or apiKey [] \<noteq> []"
    and "outcome (retryWithBackoff httpRequest provider_retry_config) = Inr d"
    and "es_result d = ResultArray raws" and "map_throwing tf raws = Inr transactions"
  shows "\<exists>pg n. EthereumProvider_getTransactions apiKey None httpRequest tf address options
                  = (Inr \<lparr> data = transactions, pagination = pg \<rparr>, n) \<and>
                (hasMore pg \<longleftrightarrow> int (length raws) = requestedLimit options)"
  using assms map_throwing_length[OF assms(4)]
  by (simp add: EthereumProvider_getTransactions_def Let_def EthereumProvider_handleResponse_def)

lemma solana_page_returned:
  assumes "rpcRequest sigEnv = (Inr (Some sigs), k)" and "sigs \<noteq> []"
    and "Promise_all (map (\<lambda>i. fst (rpcRequest (txEnv i))) [0..<length sigs]) = Inr details"
    and "transformAll tf (zip sigs details) = Inr transactions"
  shows "\<exists>pg n. SolanaProvider_getTransactions sigEnv txEnv tf publicKey options
                  = (Inr \<lparr> data = transactions, pagination = pg \<rparr>, n) \<and>
                (hasMore pg \<longleftrightarrow> int (length sigs) = requestedLimit options) \<and>
                nextCursor pg = (if hasMore pg then Some (signature (last sigs)) else None)"
  using assms
  by (simp add: SolanaProvider_getTransactions_def Let_def comp_def)

lemma solana_empty_page:
  assumes "rpcRequest sigEnv = (Inr signatures, k)" and "signatures = None \<or> signatures = Some []"
  shows "SolanaProvider_getTransactions sigEnv txEnv tf publicKey options =
           (Inr \<lparr> data = [],
                  pagination = \<lparr> total = None, page_number = None, totalPages = None,
                                 nextCursor = None, hasMore = False \<rparr> \<rparr>, k)"
  using assms by (auto simp: SolanaProvider_getTransactions_def Let_def)

text \<open>
  C7, as stated, fails for a requested limit of 0. Both providers read
  \<open>options.limit || 100\<close>, so with \<open>limit: 0\<close> they ask the backend for 100 records and
  compare the number returned with 100. A backend returning 100 records gives
  \<open>hasMore = true\<close> although 100 is not the requested 0, and a backend returning no
  record (an empty result array, an empty signature list) gives \<open>hasMore = false\<close>
  although the number returned equals the requested 0.
\<close>

theorem limit_zero_counterexample:
  "limit (no_options \<lparr> limit := Some 0 \<rparr>) = Some 0 \<and>
   EthereumProvider_getTransactions (Some ''test-key'') None
       (always_responds full_page_response) example_transform
       ''0x742d35cc6634c0532925a3b844bc9e7595f0beb0'' (no_options \<lparr> limit := Some 0 \<rparr>) =
     (Inr \<lparr> data = replicate 100 \<lparr> hash = ''0x1234'', timestamp = 1609459200000, status = SUCCESS,
                                  network = ETHEREUM_MAINNET \<rparr>,
            pagination = \<lparr> total = None, page_number = Some 1, totalPages = None, nextCursor = None,
                           hasMore = True \<rparr> \<rparr>, 1) \<and>
   records_returned full_page_response = 100 \<and>
   EthereumProvider_getTransactions (Some ''test-key'') None
       (always_responds empty_array_response) example_transform
       ''0x742d35cc6634c0532925a3b844bc9e7595f0beb0'' (no_options \<lparr> limit := Some 0 \<rparr>) =
     (Inr \<lparr> data = [],
            pagination = \<lparr> total = None, page_number = Some 1, totalPages = Some 1, nextCursor = None,
                           hasMore = False \<rparr> \<rparr>, 1) \<and>
   records_returned empty_array_response = 0 \<and>
   SolanaProvider_getTransactions empty_sigEnv example_txEnv example_solana_transform
       ''9WzDXwBbmkg8ZTbNMqUxvQRAyrZzDsGYdLVL9zYtAWWM'' (no_options \<lparr> limit := Some 0 \<rparr>) =
     (Inr \<lparr> data = [],
            pagination = \<lparr> total = None, page_number = None, totalPages = None, nextCursor = None,
                           hasMore = False \<rparr> \<rparr>, 1)"
  by (simp add: EthereumProvider_getTransactions_def string_or_def Let_def
      provider_retry_first_success always_responds_def full_page_response_def empty_array_response_def
      EthereumProvider_handleResponse_def example_transform_def no_options_def
      requestedLimit_def requestedPage_def or_default_def map_throwing_replicate records_returned_def
      SolanaProvider_getTransactions_def rpcRequest_def empty_sigEnv_def)

text \<open>
  C7, amended. Let the effective limit be \<open>options.limit || 100\<close>: the requested limit
  \<open>L\<close>, or 100 when no limit is given or \<open>L\<close> is 0.

  The REST-indexer provider, with an API key configured and the limiter admitting the
  call: when the response body carries a result array and every record is transformed
  without an exception, a page holding the transformed records is returned, and its
  \<open>hasMore\<close> is true exactly when the number of records in the array equals the effective
  limit. Whenever this provider returns a page at all, \<open>hasMore\<close> is true exactly when
  the number of records of the body (none for a body without an array) equals the
  effective limit.

  The JSON-RPC provider: when the signature request returns a non-empty list, every
  detail request succeeds and every pair is transformed without an exception, a page
  holding the transformed records is returned, its \<open>hasMore\<close> is true exactly when the
  number of signature records equals the effective limit, and its \<open>nextCursor\<close> is the
  signature of the last signature record when \<open>hasMore\<close> is true and unset otherwise.
  When the signature request returns \<open>null\<close> or an empty list, the empty page is returned
  with \<open>hasMore = false\<close> and \<open>nextCursor\<close> unset. Whenever this provider returns a page
  at all, \<open>hasMore\<close> and \<open>nextCursor\<close> are related in this way to the signature records
  returned.
\<close>

theorem hasMore_iff_effective_limit:
  "requestedLimit options =
     (case limit options of None \<Rightarrow> 100 | Some L \<Rightarrow> if L = 0 then 100 else L) \<and>
   (string_or apiKey [] \<noteq> [] \<and>
    outcome (retryWithBackoff httpRequest provider_retry_config) = Inr d \<and>
    es_result d = ResultArray raws \<and> map_throwing transformTransaction raws = Inr transactions
      \<longrightarrow>
      (\<exists>pg n. EthereumProvider_getTransactions apiKey None httpRequest transformTransaction address options
                 = (Inr \<lparr> data = transactions, pagination = pg \<rparr>, n) \<and>
               (hasMore pg \<longleftrightarrow> int (length raws) = requestedLimit options))) \<and>
   (EthereumProvider_getTransactions apiKey acquired httpRequest transformTransaction address options
      = (Inr r, m) \<longrightarrow>
      (\<exists>body. outcome (retryWithBackoff httpRequest provider_retry_config) = Inr body \<and>
           (hasMore (pagination r) \<longleftrightarrow> int (records_returned body) = requestedLimit options))) \<and>
   (rpcRequest sigEnv = (Inr (Some sigs), k) \<and> sigs \<noteq> [] \<and>
    Promise_all (map (\<lambda>i. fst (rpcRequest (txEnv i))) [0..<length sigs]) = Inr details \<and>
    transformAll transformTransaction' (zip sigs details) = Inr transactions'
      \<longrightarrow>
      (\<exists>pg n. SolanaProvider_getTransactions sigEnv txEnv transformTransaction' publicKey options
                 = (Inr \<lparr> data = transactions', pagination = pg \<rparr>, n) \<and>
               (hasMore pg \<longleftrightarrow> int (length sigs) = requestedLimit options) \<and>
               nextCursor pg = (if hasMore pg then Some (signature (last sigs)) else None))) \<and>
   (rpcRequest sigEnv = (Inr signatures, k') \<and> (signatures = None \<or> signatures = Some [])
      \<longrightarrow>
      SolanaProvider_getTransactions sigEnv txEnv transformTransaction' publicKey options =
        (Inr \<lparr> data = [],
               pagination = \<lparr> total = None, page_number = None, totalPages = None,
                              nextCursor = None, hasMore = False \<rparr> \<rparr>, k')) \<and>
   (SolanaProvider_getTransactions sigEnv txEnv transformTransaction' publicKey options = (Inr r', m')
      \<longrightarrow>
      (\<exists>returned j. rpcRequest sigEnv = (Inr returned, j) \<and>
           (hasMore (pagination r') \<longleftrightarrow>
              int (length (case returned of None \<Rightarrow> [] | Some ss \<Rightarrow> ss)) = requestedLimit options) \<and>
           nextCursor (pagination r') =
             (if hasMore (pagination r')
              then Some (signature (last (case returned of None \<Rightarrow> [] | Some ss \<Rightarrow> ss)))
              else None)))"
proof (intro conjI impI)
  show "requestedLimit options =
     (case limit options of None \<Rightarrow> 100 | Some L \<Rightarrow> if L = 0 then 100 else L)"
    by (rule requestedLimit_eq)
next
  assume "string_or apiKey [] \<noteq> [] \<and>
    outcome (retryWithBackoff httpRequest provider_retry_config) = Inr d \<and>
    es_result d = ResultArray raws \<and> map_throwing transformTransaction raws = Inr transactions"
  then have "string_or apiKey [] \<noteq> []"
    and "outcome (retryWithBackoff httpRequest provider_retry_config) = Inr d"
    and "es_result d = ResultArray raws" and "map_throwing transformTransaction raws = Inr transactions"
    by simp_all
  then show "\<exists>pg n. EthereumProvider_getTransactions apiKey None httpRequest transformTransaction address options
                 = (Inr \<lparr> data = transactions, pagination = pg \<rparr>, n) \<and>
               (hasMore pg \<longleftrightarrow> int (length raws) = requestedLimit options)"
    by (rule ethereum_page_returned)
next
  assume "EthereumProvider_getTransactions apiKey acquired httpRequest transformTransaction address options
      = (Inr r, m)"
  then show "\<exists>body. outcome (retryWithBackoff httpRequest provider_retry_config) = Inr body \<and>
           (hasMore (pagination r) \<longleftrightarrow> int (records_returned body) = requestedLimit options)"
    by (rule ethereum_hasMore)
next
  assume "rpcRequest sigEnv = (Inr (Some sigs), k) \<and> sigs \<noteq> [] \<and>
    Promise_all (map (\<lambda>i. fst (rpcRequest (txEnv i))) [0..<length sigs]) = Inr details \<and>
    transformAll transformTransaction' (zip sigs details) = Inr transactions'"
  then have "rpcRequest sigEnv = (Inr (Some sigs), k)" and "sigs \<noteq> []"
    and "Promise_all (map (\<lambda>i. fst (rpcRequest (txEnv i))) [0..<length sigs]) = Inr details"
    and "transformAll transformTransaction' (zip sigs details) = Inr transactions'"
    by simp_all
  then show "\<exists>pg n. SolanaProvider_getTransactions sigEnv txEnv transformTransaction' publicKey options
                 = (Inr \<lparr> data = transactions', pagination = pg \<rparr>, n) \<and>
               (hasMore pg \<longleftrightarrow> int (length sigs) = requestedLimit options) \<and>
               nextCursor pg = (if hasMore pg then Some (signature (last sigs)) else None)"
    by (rule solana_page_returned)
next
  assume "rpcRequest sigEnv = (Inr signatures, k') \<and> (signatures = None \<or> signatures = Some [])"
  then show "SolanaProvider_getTransactions sigEnv txEnv transformTransaction' publicKey options =
        (Inr \<lparr> data = [],
               pagination = \<lparr> total = None, page_number = None, totalPages = None,
                              nextCursor = None, hasMore = False \<rparr> \<rparr>, k')"
    by (intro solana_empty_page[of sigEnv signatures]) simp_all
next
  assume "SolanaProvider_getTransactions sigEnv txEnv transformTransaction' publicKey options = (Inr r', m')"
  then show "\<exists>returned j. rpcRequest sigEnv = (Inr returned, j) \<and>
           (hasMore (pagination r') \<longleftrightarrow>
              int (length (case returned of None \<Rightarrow> [] | Some ss \<Rightarrow> ss)) = requestedLimit options) \<and>
           nextCursor (pagination r') =
             (if hasMore (pagination r')
              then Some (signature (last (case returned of None \<Rightarrow> [] | Some ss \<Rightarrow> ss)))
              else None)"
    by (rule solana_hasMore)
qed

theorem hasMore_iff_effective_limit_witness:
  "(\<exists>pg n. EthereumProvider_getTransactions (Some ''test-key'') None
               (always_responds mockEtherscanSuccessResponse) example_transform
               ''0x742d35cc6634c0532925a3b844bc9e7595f0beb0'' (no_options \<lparr> limit := Some 2 \<rparr>) =
             (Inr \<lparr> data = [\<lparr> hash = ''0x1234'', timestamp = 1609459200000, status = SUCCESS,
                               network = ETHEREUM_MAINNET \<rparr>,
                             \<lparr> hash = ''0xabcd'', timestamp = 1609459300000, status = SUCCESS,
                               network = ETHEREUM_MAINNET \<rparr>],
                    pagination = pg \<rparr>, n) \<and> hasMore pg) \<and>
   (\<exists>pg n. EthereumProvider_getTransactions (Some ''test-key'') None
               (always_responds mockEtherscanSuccessResponse) example_transform
               ''0x742d35cc6634c0532925a3b844bc9e7595f0beb0'' no_options =
             (Inr \<lparr> data = [\<lparr> hash = ''0x1234'', timestamp = 1609459200000, status = SUCCESS,
                               network = ETHEREUM_MAINNET \<rparr>,
                             \<lparr> hash = ''0xabcd'', timestamp = 1609459300000, status = SUCCESS,
                               network = ETHEREUM_MAINNET \<rparr>],
                    pagination = pg \<rparr>, n) \<and> \<not> hasMore pg) \<and>
   (\<exists>pg n. SolanaProvider_getTransactions example_sigEnv example_txEnv example_solana_transform
               ''9WzDXwBbmkg8ZTbNMqUxvQRAyrZzDsGYdLVL9zYtAWWM'' (no_options \<lparr> limit := Some 2 \<rparr>) =
             (Inr \<lparr> data = [\<lparr> hash = ''5VERv8NMvzbJ'', timestamp = 1609459200000, status = SUCCESS,
                               network = SOLANA_MAINNET \<rparr>,
                             \<lparr> hash = ''2V7FshZJv8XH'', timestamp = 1609459300000, status = SUCCESS,
                               network = SOLANA_MAINNET \<rparr>],
                    pagination = pg \<rparr>, n) \<and> hasMore pg \<and> nextCursor pg = Some ''2V7FshZJv8XH'') \<and>
   (\<exists>pg n. SolanaProvider_getTransactions example_sigEnv example_txEnv example_solana_transform
               ''9WzDXwBbmkg8ZTbNMqUxvQRAyrZzDsGYdLVL9zYtAWWM'' no_options =
             (Inr \<lparr> data = [\<lparr> hash = ''5VERv8NMvzbJ'', timestamp = 1609459200000, status = SUCCESS,
                               network = SOLANA_MAINNET \<rparr>,
                             \<lparr> hash = ''2V7FshZJv8XH'', timestamp = 1609459300000, status = SUCCESS,
                               network = SOLANA_MAINNET \<rparr>],
                    pagination = pg \<rparr>, n) \<and> \<not> hasMore pg \<and> nextCursor pg = None) \<and>
   SolanaProvider_getTransactions empty_sigEnv example_txEnv example_solana_transform
       ''9WzDXwBbmkg8ZTbNMqUxvQRAyrZzDsGYdLVL9zYtAWWM'' (no_options \<lparr> limit := Some 2 \<rparr>) =
     (Inr \<lparr> data = [],
            pagination = \<lparr> total = None, page_number = None, totalPages = None,
                           nextCursor = None, hasMore = False \<rparr> \<rparr>, 1) \<and>
   (\<exists>body. outcome (retryWithBackoff (always_responds mockEtherscanSuccessResponse) provider_retry_config)
           = Inr body \<and> int (records_returned body) = 2) \<and>
   (\<exists>returned j. rpcRequest example_sigEnv = (Inr returned, j) \<and>
        int (length (case returned of None \<Rightarrow> [] | Some ss \<Rightarrow> ss)) = 2 \<and>
        Some ''2V7FshZJv8XH'' =
          Some (signature (last (case returned of None \<Rightarrow> [] | Some ss \<Rightarrow> ss))))"
proof -
  let ?o2 = "no_options \<lparr> limit := Some 2 \<rparr>"
  let ?raws = "[(''0x1234'', 1609459200), (''0xabcd'', 1609459300)] :: (string \<times> int) list"
  let ?txs = "[\<lparr> hash = ''0x1234'', timestamp = 1609459200000, status = SUCCESS, network = ETHEREUM_MAINNET \<rparr>,
               \<lparr> hash = ''0xabcd'', timestamp = 1609459300000, status = SUCCESS, network = ETHEREUM_MAINNET \<rparr>]"
  let ?stxs = "[\<lparr> hash = ''5VERv8NMvzbJ'', timestamp = 1609459200000, status = SUCCESS, network = SOLANA_MAINNET \<rparr>,
                \<lparr> hash = ''2V7FshZJv8XH'', timestamp = 1609459300000, status = SUCCESS, network = SOLANA_MAINNET \<rparr>]"
  have l2: "requestedLimit ?o2 = 2"
    using hasMore_iff_effective_limit[where options = ?o2, THEN conjunct1]
    by (simp add: no_options_def)
  have l0: "requestedLimit no_options = 100"
    using hasMore_iff_effective_limit[where options = no_options, THEN conjunct1]
    by (simp add: no_options_def)
  have e: "string_or (Some ''test-key'') [] \<noteq> [] \<and>
      outcome (retryWithBackoff (always_responds mockEtherscanSuccessResponse) provider_retry_config)
        = Inr mockEtherscanSuccessResponse \<and>
      es_result mockEtherscanSuccessResponse = ResultArray ?raws \<and>
      map_throwing example_transform ?raws = Inr ?txs"
    by (simp add: string_or_def provider_retry_first_success always_responds_def
        mockEtherscanSuccessResponse_def example_transform_def)
  have s: "rpcRequest example_sigEnv = (Inr (Some mockSolanaSignatures), 1) \<and>
      mockSolanaSignatures \<noteq> [] \<and>
      Promise_all (map (\<lambda>i. fst (rpcRequest (example_txEnv i))) [0..<length mockSolanaSignatures])
        = Inr [Some 5000, Some 5000] \<and>
      transformAll example_solana_transform (zip mockSolanaSignatures [Some 5000, Some 5000]) = Inr ?stxs"
    by (simp add: rpcRequest_def example_sigEnv_def example_txEnv_def provider_retry_first_success
        always_responds_def mockSolanaSignatures_def example_solana_transform_def upt_rec)
  have z: "rpcRequest empty_sigEnv = (Inr (Some []), 1) \<and>
      ((Some [] :: SolanaSignatureInfo list option) = None \<or>
       (Some [] :: SolanaSignatureInfo list option) = Some [])"
    by (simp add: rpcRequest_def empty_sigEnv_def provider_retry_first_success always_responds_def)
  have sg: "length mockSolanaSignatures = 2" "signature (last mockSolanaSignatures) = ''2V7FshZJv8XH''"
    by (simp_all add: mockSolanaSignatures_def)
  note E = hasMore_iff_effective_limit[THEN conjunct2, THEN conjunct1, rule_format, OF e]
  note S = hasMore_iff_effective_limit[THEN conjunct2, THEN conjunct2, THEN conjunct2, THEN conjunct1,
             rule_format, OF s]
  from E[of "''0x742d35cc6634c0532925a3b844bc9e7595f0beb0''" ?o2]
  have 1: "\<exists>pg n. EthereumProvider_getTransactions (Some ''test-key'') None
               (always_responds mockEtherscanSuccessResponse) example_transform
               ''0x742d35cc6634c0532925a3b844bc9e7595f0beb0'' ?o2 =
             (Inr \<lparr> data = ?txs, pagination = pg \<rparr>, n) \<and> hasMore pg"
    by (simp add: l2)
  from E[of "''0x742d35cc6634c0532925a3b844bc9e7595f0beb0''" no_options]
  have 2: "\<exists>pg n. EthereumProvider_getTransactions (Some ''test-key'') None
               (always_responds mockEtherscanSuccessResponse) example_transform
               ''0x742d35cc6634c0532925a3b844bc9e7595f0beb0'' no_options =
             (Inr \<lparr> data = ?txs, pagination = pg \<rparr>, n) \<and> \<not> hasMore pg"
    by (simp add: l0)
  from S[of "''9WzDXwBbmkg8ZTbNMqUxvQRAyrZzDsGYdLVL9zYtAWWM''" ?o2]
  have 3: "\<exists>pg n. SolanaProvider_getTransactions example_sigEnv example_txEnv example_solana_transform
               ''9WzDXwBbmkg8ZTbNMqUxvQRAyrZzDsGYdLVL9zYtAWWM'' ?o2 =
             (Inr \<lparr> data = ?stxs, pagination = pg \<rparr>, n) \<and> hasMore pg \<and>
             nextCursor pg = Some ''2V7FshZJv8XH''"
    by (auto simp: l2 sg)
  from S[of "''9WzDXwBbmkg8ZTbNMqUxvQRAyrZzDsGYdLVL9zYtAWWM''" no_options]
  have 4: "\<exists>pg n. SolanaProvider_getTransactions example_sigEnv example_txEnv example_solana_transform
               ''9WzDXwBbmkg8ZTbNMqUxvQRAyrZzDsGYdLVL9zYtAWWM'' no_options =
             (Inr \<lparr> data = ?stxs, pagination = pg \<rparr>, n) \<and> \<not> hasMore pg \<and> nextCursor pg = None"
    by (auto simp: l0 sg)
  note 5 = hasMore_iff_effective_limit[THEN conjunct2, THEN conjunct2, THEN conjunct2, THEN conjunct2,
             THEN conjunct1, rule_format, OF z,
             of example_txEnv example_solana_transform
                "''9WzDXwBbmkg8ZTbNMqUxvQRAyrZzDsGYdLVL9zYtAWWM''" ?o2]
  from hasMore_iff_effective_limit[THEN conjunct2, THEN conjunct2, THEN conjunct1, rule_format,
         OF ethereum_example_page]
  have 6: "\<exists>body. outcome (retryWithBackoff (always_responds mockEtherscanSuccessResponse) provider_retry_config)
           = Inr body \<and> int (records_returned body) = 2"
    by (simp add: l2)
  from hasMore_iff_effective_limit[THEN conjunct2, THEN conjunct2, THEN conjunct2, THEN conjunct2,
         THEN conjunct2, rule_format, OF solana_example_page]
  have 7: "\<exists>returned j. rpcRequest example_sigEnv = (Inr returned, j) \<and>
        int (length (case returned of None \<Rightarrow> [] | Some ss \<Rightarrow> ss)) = 2 \<and>
        Some ''2V7FshZJv8XH'' =
          Some (signature (last (case returned of None \<Rightarrow> [] | Some ss \<Rightarrow> ss)))"
    by (simp add: l2)
  from 1 2 3 4 5 6 7 show ?thesis by blast
qed
section \<open>Properties of the adapters and the client\<close>

lemma validateAddress_ethereum: "validateAddress ETHEREUM_MAINNET address = isValidEthereumAddress address"
  by (auto simp: validateAddress_def validateAddressForNetwork_def isValidEthereumAddress_def)

lemma validateAddress_solana: "validateAddress SOLANA_MAINNET address = isValidSolanaPublicKey address"
  by (auto simp: validateAddress_def validateAddressForNetwork_def isValidSolanaPublicKey_def)

text \<open>
  C8. For an address that is neither a valid Ethereum address nor a valid Solana public
  key, both adapters and the client's auto-detecting \<open>getTransactions\<close> throw a validation
  error whose context carries the address as given. Whatever the provider is, it does not
  enter the result and the world outside (and the client with its cache) is as before:
  no request was sent.
\<close>

theorem malformed_address_rejected_before_fetch:
  assumes "\<not> isValidEthereumAddress address" and "\<not> isValidSolanaPublicKey address"
  shows "EthereumAdapter_getTransactions provider address options w =
           (Inl (ValidationError ''Invalid Ethereum address format'' [(''address'', address)]), w) \<and>
         SolanaAdapter_getTransactions provider' address options w =
           (Inl (ValidationError ''Invalid Solana public key format'' [(''publicKey'', address)]), w) \<and>
         BlockchainSDK_getTransactions clock sdk address maybe_options w =
           (Inl (ValidationError
              ''Unable to detect network from address format. Please use a valid Ethereum address (0x...) or Solana public key.''
              [(''address'', address)]), sdk, w)"
  using assms
  by (simp add: EthereumAdapter_getTransactions_def SolanaAdapter_getTransactions_def
      BlockchainSDK_getTransactions_def validateAddress_ethereum validateAddress_solana
      getNetworkFromAddress_def detectNetwork_def)

theorem malformed_address_rejected_before_fetch_witness:
  "EthereumAdapter_getTransactions counting_provider ''0xinvalid'' no_options 0 =
     (Inl (ValidationError ''Invalid Ethereum address format'' [(''address'', ''0xinvalid'')]), 0) \<and>
   SolanaAdapter_getTransactions counting_provider ''0xinvalid'' no_options 0 =
     (Inl (ValidationError ''Invalid Solana public key format'' [(''publicKey'', ''0xinvalid'')]), 0) \<and>
   BlockchainSDK_getTransactions example_clock example_sdk ''0xinvalid'' None 0 =
     (Inl (ValidationError
        ''Unable to detect network from address format. Please use a valid Ethereum address (0x...) or Solana public key.''
        [(''address'', ''0xinvalid'')]), example_sdk, 0)"
proof -
  have e: "\<not> isValidEthereumAddress ''0xinvalid''" by (simp add: isValidEthereumAddress_def)
  have s: "\<not> isValidSolanaPublicKey ''0xinvalid''" by (simp add: isValidSolanaPublicKey_def)
  from malformed_address_rejected_before_fetch[OF e s] show ?thesis .
qed

lemma filterTransactions_eq:
  "filterTransactions txs options =
     filter (\<lambda>tx. (case startTime options of None \<Rightarrow> True | Some s \<Rightarrow> s \<le> timestamp tx) \<and>
                  (case endTime options of None \<Rightarrow> True | Some e \<Rightarrow> timestamp tx \<le> e)) txs"
  by (auto simp: filterTransactions_def Let_def split: option.splits intro: filter_cong)

text \<open>
  C9. Whenever an adapter's \<open>getTransactions\<close> returns a page, the provider returned a
  page too (asked with the normalized address; the Ethereum adapter passes the options
  without the time bounds); the pagination metadata returned is the provider's,
  unchanged; the transactions returned are exactly the provider's transactions, in order,
  whose timestamp is at or above \<open>startTime\<close> (when given) and at or below \<open>endTime\<close>
  (when given); so every returned transaction lies within the bounds, both inclusive.
\<close>

theorem adapter_time_filter:
  "(EthereumAdapter_getTransactions provider address options w = (Inr r, w') \<longrightarrow>
      (\<exists>response. provider (toLowerCase address) (applyTimeRangeFilter options) w = (Inr response, w') \<and>
         pagination r = pagination response \<and>
         data r = filter (\<lambda>tx. (case startTime options of None \<Rightarrow> True | Some s \<Rightarrow> s \<le> timestamp tx) \<and>
                               (case endTime options of None \<Rightarrow> True | Some e \<Rightarrow> timestamp tx \<le> e))
                    (data response))) \<and>
   (SolanaAdapter_getTransactions provider address options w = (Inr r, w') \<longrightarrow>
      (\<exists>response. provider address options w = (Inr response, w') \<and>
         pagination r = pagination response \<and>
         data r = filter (\<lambda>tx. (case startTime options of None \<Rightarrow> True | Some s \<Rightarrow> s \<le> timestamp tx) \<and>
                               (case endTime options of None \<Rightarrow> True | Some e \<Rightarrow> timestamp tx \<le> e))
                    (data response))) \<and>
   ((EthereumAdapter_getTransactions provider address options w = (Inr r, w') \<or>
     SolanaAdapter_getTransactions provider address options w = (Inr r, w')) \<longrightarrow>
      (\<forall>tx \<in> set (data r).
         (\<forall>s. startTime options = Some s \<longrightarrow> s \<le> timestamp tx) \<and>
         (\<forall>e. endTime options = Some e \<longrightarrow> timestamp tx \<le> e)))"
proof -
  let ?P = "\<lambda>tx. (case startTime options of None \<Rightarrow> True | Some s \<Rightarrow> s \<le> timestamp tx) \<and>
                  (case endTime options of None \<Rightarrow> True | Some e \<Rightarrow> timestamp tx \<le> e)"
  have E: "\<exists>response. provider (toLowerCase address) (applyTimeRangeFilter options) w = (Inr response, w') \<and>
         pagination r = pagination response \<and> data r = filter ?P (data response)"
    if "EthereumAdapter_getTransactions provider address options w = (Inr r, w')"
    using that
    by (auto simp: EthereumAdapter_getTransactions_def normalizeEthereumAddress_def Let_def
        filterTransactions_eq split: if_splits sum.splits prod.splits)
  have S: "\<exists>response. provider address options w = (Inr response, w') \<and>
         pagination r = pagination response \<and> data r = filter ?P (data response)"
    if "SolanaAdapter_getTransactions provider address options w = (Inr r, w')"
    using that
    by (auto simp: SolanaAdapter_getTransactions_def normalizeSolanaPublicKey_def Let_def
        filterTransactions_eq split: if_splits sum.splits prod.splits)
  have B: "\<forall>tx \<in> set (data r).
         (\<forall>s. startTime options = Some s \<longrightarrow> s \<le> timestamp tx) \<and>
         (\<forall>e. endTime options = Some e \<longrightarrow> timestamp tx \<le> e)"
    if "EthereumAdapter_getTransactions provider address options w = (Inr r, w') \<or>
        SolanaAdapter_getTransactions provider address options w = (Inr r, w')"
  proof -
    from that E S obtain xs where "data r = filter ?P xs" by blast
    then show ?thesis by auto
  qed
  from E S B show ?thesis by blast
qed

lemma counting_provider_filtered:
  "EthereumAdapter_getTransactions counting_provider ''0x742d35Cc6634C0532925a3b844Bc9e7595f0bEb0''
     (no_options \<lparr> startTime := Some 1609459250000, endTime := Some 1609459300000 \<rparr>) 0 =
   (Inr \<lparr> data = [\<lparr> hash = ''0xabcd'', timestamp = 1609459300000, status = SUCCESS,
                     network = ETHEREUM_MAINNET \<rparr>],
          pagination = \<lparr> total = None, page_number = Some 1, totalPages = None,
                         nextCursor = Some ''0xabcd'', hasMore = True \<rparr> \<rparr>, 1)"
  by (simp add: EthereumAdapter_getTransactions_def validateAddress_ethereum
      normalizeEthereumAddress_def isValidEthereumAddress_def isHexChar_def Let_def
      counting_provider_def filterTransactions_def no_options_def)

lemma echo_provider_filtered:
  "SolanaAdapter_getTransactions echo_provider ''9WzDXwBbmkg8ZTbNMqUxvQRAyrZzDsGYdLVL9zYtAWWM''
     (no_options \<lparr> startTime := Some 1609459200001 \<rparr>) 0 =
   (Inr \<lparr> data = [], pagination = \<lparr> total = None, page_number = None, totalPages = None,
                                     nextCursor = None, hasMore = False \<rparr> \<rparr>, 1)"
  by (simp add: SolanaAdapter_getTransactions_def validateAddress_solana
      normalizeSolanaPublicKey_def isValidSolanaPublicKey_def isBase58Char_def Let_def
      echo_provider_def filterTransactions_def no_options_def)

theorem adapter_time_filter_witness:
  "pagination \<lparr> data = [\<lparr> hash = ''0xabcd'', timestamp = 1609459300000, status = SUCCESS,
                          network = ETHEREUM_MAINNET \<rparr>],
               pagination = \<lparr> total = None, page_number = Some 1, totalPages = None,
                              nextCursor = Some ''0xabcd'', hasMore = True \<rparr> \<rparr> =
     pagination (projr (fst (counting_provider
        (toLowerCase ''0x742d35Cc6634C0532925a3b844Bc9e7595f0bEb0'')
        (applyTimeRangeFilter (no_options \<lparr> startTime := Some 1609459250000, endTime := Some 1609459300000 \<rparr>))
        0))) \<and>
   (1609459250000 :: int) \<le> timestamp \<lparr> hash = ''0xabcd'', timestamp = 1609459300000, status = SUCCESS,
                          network = ETHEREUM_MAINNET \<rparr> \<and>
   timestamp \<lparr> hash = ''0xabcd'', timestamp = 1609459300000, status = SUCCESS,
                          network = ETHEREUM_MAINNET \<rparr> \<le> (1609459300000 :: int) \<and>
   (\<exists>response. echo_provider ''9WzDXwBbmkg8ZTbNMqUxvQRAyrZzDsGYdLVL9zYtAWWM''
                    (no_options \<lparr> startTime := Some 1609459200001 \<rparr>) 0 = (Inr response, 1) \<and>
               hasMore (pagination response) = False \<and> length (data response) = 1)"
proof -
  let ?o = "no_options \<lparr> startTime := Some 1609459250000, endTime := Some 1609459300000 \<rparr>"
  let ?tx = "\<lparr> hash = ''0xabcd'', timestamp = 1609459300000, status = SUCCESS,
                          network = ETHEREUM_MAINNET \<rparr>"
  note t = adapter_time_filter[of counting_provider "''0x742d35Cc6634C0532925a3b844Bc9e7595f0bEb0''" ?o 0
             _ 1]
  from t[THEN conjunct1, rule_format, OF counting_provider_filtered]
  obtain response where r: "counting_provider
        (toLowerCase ''0x742d35Cc6634C0532925a3b844Bc9e7595f0bEb0'') (applyTimeRangeFilter ?o) 0
          = (Inr response, 1)"
    and p: "pagination \<lparr> data = [?tx],
               pagination = \<lparr> total = None, page_number = Some 1, totalPages = None,
                              nextCursor = Some ''0xabcd'', hasMore = True \<rparr> \<rparr> = pagination response"
    by blast
  from t[THEN conjunct2, THEN conjunct2, rule_format, OF disjI1, OF counting_provider_filtered]
  have b: "\<forall>tx \<in> set [?tx].
         (\<forall>s. startTime ?o = Some s \<longrightarrow> s \<le> timestamp tx) \<and>
         (\<forall>e. endTime ?o = Some e \<longrightarrow> timestamp tx \<le> e)"
    by simp
  have s: "startTime ?o = Some 1609459250000" "endTime ?o = Some 1609459300000"
    by (simp_all add: no_options_def)
  from b s have "(1609459250000 :: int) \<le> timestamp ?tx" "timestamp ?tx \<le> (1609459300000 :: int)"
    by auto
  then have e: "(1609459250000 :: int) \<le> timestamp ?tx \<and> timestamp ?tx \<le> (1609459300000 :: int)"
    by simp
  let ?k = "''9WzDXwBbmkg8ZTbNMqUxvQRAyrZzDsGYdLVL9zYtAWWM''"
  let ?o' = "no_options \<lparr> startTime := Some 1609459200001 \<rparr>"
  let ?r' = "\<lparr> data = [], pagination = \<lparr> total = None, page_number = None, totalPages = None,
                                           nextCursor = None, hasMore = False \<rparr> \<rparr>
               :: Transaction PaginatedResponse"
  from adapter_time_filter[of echo_provider ?k ?o' 0 ?r' 1,
         THEN conjunct2, THEN conjunct1, rule_format, OF echo_provider_filtered]
  obtain response where r': "echo_provider ?k ?o' 0 = (Inr response, 1)"
    and p': "pagination ?r' = pagination response"
    by blast
  from r' have l: "length (data response) = 1" by (auto simp: echo_provider_def)
  from p'[symmetric] have h: "hasMore (pagination response) = False" by simp
  from r p e r' l h show ?thesis by auto
qed

section \<open>Properties of the transaction cache\<close>

lemma generateKey_toLowerCase:
  "toLowerCase a = toLowerCase b \<Longrightarrow> generateKey net a options = generateKey net b options"
  by (simp add: generateKey_def)

lemma map_of_Map_set: "map_of (Map_set k v m) k = Some v"
  by (induction m) auto

lemma map_of_filter_kept:
  "map_of m k = Some v \<Longrightarrow> P (k, v) \<Longrightarrow> map_of (filter P m) k = Some v"
  by (induction m) (auto split: if_splits)

lemma MemoryCache_get_after_set:
  assumes "cache_enabled c" and "MemoryCache_set now key v ttl c = (None, c')"
    and "now' \<le> now + or_default ttl (defaultTtl c)"
  shows "fst (MemoryCache_get now' key c') = Some v"
proof -
  obtain c2 where e: "evictOldest (evictExpired now c) = (None, c2)"
    and c': "c' = c2 \<lparr> cache := Map_set key
                \<lparr> entry_value = v, expiresAt = now + or_default ttl (defaultTtl c2), createdAt = now \<rparr>
                (cache c2) \<rparr>"
    using assms(1,2)
    by (auto simp: MemoryCache_set_def Let_def split: prod.splits option.splits)
  from e have f: "defaultTtl c2 = defaultTtl c" "cache_enabled c2 = cache_enabled c"
    by (auto simp: evictOldest_def evictExpired_def Let_def split: option.splits if_splits)
  let ?entry = "\<lparr> entry_value = v, expiresAt = now + or_default ttl (defaultTtl c), createdAt = now \<rparr>"
  have m: "map_of (cache c') key = Some ?entry"
    by (simp add: c' f map_of_Map_set)
  have "map_of (filter (\<lambda>kv. \<not> now' > expiresAt (snd kv)) (cache c')) key = Some ?entry"
    by (rule map_of_filter_kept[OF m]) (use assms(3) in simp)
  with assms(1,3) f show ?thesis
    by (simp add: MemoryCache_get_def evictExpired_def isExpired_def Let_def c')
qed

text \<open>
  C10. The key generator lowercases the address whatever the network; normalization of a
  valid Solana public key is the identity. So for two addresses that differ only in the
  case of letters (their lowercase forms are equal), \<open>generateKey\<close> gives the same key for
  the same network and options, and a response stored in an enabled cache for the one is
  what \<open>TransactionCache.get\<close> returns for the other until the entry expires.
\<close>

theorem case_variant_keys_share_cache_entry:
  assumes "toLowerCase a = toLowerCase b"
  shows "generateKey net a options = generateKey net b options \<and>
         (isValidSolanaPublicKey a \<longrightarrow> normalizeSolanaPublicKey a = Inr a) \<and>
         (cache_enabled c \<and> TransactionCache_set now net a response options ttl c = (None, c') \<and>
          now' \<le> now + or_default ttl (defaultTtl c) \<longrightarrow>
            fst (TransactionCache_get now' net b options c') = Some response)"
proof (intro conjI impI)
  from assms show k: "generateKey net a options = generateKey net b options"
    by (rule generateKey_toLowerCase)
  show "normalizeSolanaPublicKey a = Inr a" if "isValidSolanaPublicKey a"
    using that by (simp add: normalizeSolanaPublicKey_def)
  assume h: "cache_enabled c \<and> TransactionCache_set now net a response options ttl c = (None, c') \<and>
          now' \<le> now + or_default ttl (defaultTtl c)"
  then have en: "cache_enabled c" and le: "now' \<le> now + or_default ttl (defaultTtl c)"
    and st: "MemoryCache_set now (generateKey net b options) response ttl c = (None, c')"
    by (simp_all add: TransactionCache_set_def k)
  from MemoryCache_get_after_set[OF en st le]
  show "fst (TransactionCache_get now' net b options c') = Some response"
    by (simp add: TransactionCache_get_def)
qed

lemma example_keys_valid:
  "isValidSolanaPublicKey ''9WzDXwBbmkg8ZTbNMqUxvQRAyrZzDsGYdLVL9zYtAWWM''"
  "isValidSolanaPublicKey ''9wzDXwBbmkg8ZTbNMqUxvQRAyrZzDsGYdLVL9zYtAWWM''"
  "\<not> isValidEthereumAddress ''9WzDXwBbmkg8ZTbNMqUxvQRAyrZzDsGYdLVL9zYtAWWM''"
  "\<not> isValidEthereumAddress ''9wzDXwBbmkg8ZTbNMqUxvQRAyrZzDsGYdLVL9zYtAWWM''"
  by (simp_all add: isValidSolanaPublicKey_def isBase58Char_def isValidEthereumAddress_def)

lemma example_keys_lowercase:
  "toLowerCase ''9WzDXwBbmkg8ZTbNMqUxvQRAyrZzDsGYdLVL9zYtAWWM'' =
   toLowerCase ''9wzDXwBbmkg8ZTbNMqUxvQRAyrZzDsGYdLVL9zYtAWWM''"
  by (simp add: toLowerCase_def toLowerChar_def)

lemma example_cache_store:
  "fst (TransactionCache_set 1000 ''solana-mainnet'' ''9WzDXwBbmkg8ZTbNMqUxvQRAyrZzDsGYdLVL9zYtAWWM''
          (7::nat) None None
          (TransactionCache_new \<lparr> defaultTtl_cfg = None, maxSize_cfg = None, cache_enabled_cfg = None \<rparr>))
     = None"
  by (simp add: TransactionCache_set_def MemoryCache_set_def TransactionCache_new_def
      MemoryCache_new_def or_default_def evictExpired_def evictOldest_def Let_def)

theorem case_variant_keys_share_cache_entry_witness:
  "''9WzDXwBbmkg8ZTbNMqUxvQRAyrZzDsGYdLVL9zYtAWWM'' \<noteq> ''9wzDXwBbmkg8ZTbNMqUxvQRAyrZzDsGYdLVL9zYtAWWM'' \<and>
   isValidSolanaPublicKey ''9WzDXwBbmkg8ZTbNMqUxvQRAyrZzDsGYdLVL9zYtAWWM'' \<and>
   isValidSolanaPublicKey ''9wzDXwBbmkg8ZTbNMqUxvQRAyrZzDsGYdLVL9zYtAWWM'' \<and>
   generateKey ''solana-mainnet'' ''9WzDXwBbmkg8ZTbNMqUxvQRAyrZzDsGYdLVL9zYtAWWM'' None =
     generateKey ''solana-mainnet'' ''9wzDXwBbmkg8ZTbNMqUxvQRAyrZzDsGYdLVL9zYtAWWM'' None \<and>
   normalizeSolanaPublicKey ''9WzDXwBbmkg8ZTbNMqUxvQRAyrZzDsGYdLVL9zYtAWWM'' =
     Inr ''9WzDXwBbmkg8ZTbNMqUxvQRAyrZzDsGYdLVL9zYtAWWM'' \<and>
   fst (TransactionCache_get 31000 ''solana-mainnet'' ''9wzDXwBbmkg8ZTbNMqUxvQRAyrZzDsGYdLVL9zYtAWWM'' None
          (snd (TransactionCache_set 1000 ''solana-mainnet''
                  ''9WzDXwBbmkg8ZTbNMqUxvQRAyrZzDsGYdLVL9zYtAWWM'' (7::nat) None None
                  (TransactionCache_new
                     \<lparr> defaultTtl_cfg = None, maxSize_cfg = None, cache_enabled_cfg = None \<rparr>))))
     = Some 7"
proof -
  let ?a = "''9WzDXwBbmkg8ZTbNMqUxvQRAyrZzDsGYdLVL9zYtAWWM''"
  let ?b = "''9wzDXwBbmkg8ZTbNMqUxvQRAyrZzDsGYdLVL9zYtAWWM''"
  let ?c = "TransactionCache_new \<lparr> defaultTtl_cfg = None, maxSize_cfg = None, cache_enabled_cfg = None \<rparr>
              :: nat MemoryCache"
  let ?c' = "snd (TransactionCache_set 1000 ''solana-mainnet'' ?a (7::nat) None None ?c)"
  have ne: "?a \<noteq> ?b" by simp
  have en: "cache_enabled ?c" and ttl: "defaultTtl ?c = 30000"
    by (simp_all add: TransactionCache_new_def MemoryCache_new_def or_default_def)
  have st: "TransactionCache_set 1000 ''solana-mainnet'' ?a (7::nat) None None ?c = (None, ?c')"
    using example_cache_store by (simp add: prod_eq_iff)
  have le: "(31000::int) \<le> 1000 + or_default None (defaultTtl ?c)"
    by (simp add: ttl or_default_def)
  note t = case_variant_keys_share_cache_entry[OF example_keys_lowercase,
             of "''solana-mainnet''" None ?c 1000 7 None ?c' 31000]
  from t en st le example_keys_valid(1,2) ne show ?thesis by blast
qed

text \<open>
  At the client: a valid Solana public key is detected as such, and a cache hit for it is
  returned without the adapter being called.
\<close>

lemma solana_key_not_ethereum:
  "isValidSolanaPublicKey address \<Longrightarrow> \<not> isValidEthereumAddress address"
proof
  assume s: "isValidSolanaPublicKey address" and e: "isValidEthereumAddress address"
  from e obtain rest where "address = CHR ''0'' # CHR ''x'' # rest"
    by (cases address; cases "tl address") (auto simp: isValidEthereumAddress_def split: if_splits)
  with s show False by (simp add: isValidSolanaPublicKey_def isBase58Char_def)
qed

lemma client_cache_hit:
  assumes "isValidSolanaPublicKey b" and "sdk_cache sdk = Some c"
    and "fst (TransactionCache_get (clock w) (Network_value SOLANA_MAINNET) b options c) = Some response"
  shows "fst (BlockchainSDK_getTransactions clock sdk b options w) = Inr response \<and>
         snd (snd (BlockchainSDK_getTransactions clock sdk b options w)) = w"
proof -
  obtain c' where g: "TransactionCache_get (clock w) (Network_value SOLANA_MAINNET) b options c
                        = (Some response, c')"
    using assms(3) by (cases "TransactionCache_get (clock w) (Network_value SOLANA_MAINNET) b options c") auto
  have n: "getNetworkFromAddress b = Some SOLANA_MAINNET"
    using assms(1) solana_key_not_ethereum[OF assms(1)]
    by (simp add: getNetworkFromAddress_def detectNetwork_def)
  show ?thesis
    using g by (simp add: BlockchainSDK_getTransactions_def n assms(2) Let_def)
qed

text \<open>
  The whole path on the example client, whose clock stands still: a first call for one
  public key fetches a page (one request) and caches it; a call for the key that differs
  in the case of one letter returns that page, fetched for the other key, and sends no
  request.
\<close>

lemma example_first_call:
  "BlockchainSDK_getTransactions example_clock example_sdk
     ''9WzDXwBbmkg8ZTbNMqUxvQRAyrZzDsGYdLVL9zYtAWWM'' None 0 =
   (Inr \<lparr> data = [\<lparr> hash = ''9WzDXwBbmkg8ZTbNMqUxvQRAyrZzDsGYdLVL9zYtAWWM'',
                     timestamp = 1609459200000, status = SUCCESS, network = SOLANA_MAINNET \<rparr>],
          pagination = \<lparr> total = None, page_number = None, totalPages = None,
                         nextCursor = None, hasMore = False \<rparr> \<rparr>,
    example_sdk \<lparr> sdk_cache := Some
      \<lparr> defaultTtl = 30000, maxSize = Some 100, cache_enabled = True,
        cache = [(''tx:solana-mainnet:9wzdxwbbmkg8ztbnmquxvqrayrzzdsgydlvl9zytawwm:100:1:::'',
                  \<lparr> entry_value =
                      \<lparr> data = [\<lparr> hash = ''9WzDXwBbmkg8ZTbNMqUxvQRAyrZzDsGYdLVL9zYtAWWM'',
                                   timestamp = 1609459200000, status = SUCCESS,
                                   network = SOLANA_MAINNET \<rparr>],
                        pagination = \<lparr> total = None, page_number = None, totalPages = None,
                                       nextCursor = None, hasMore = False \<rparr> \<rparr>,
                    expiresAt = 31000, createdAt = 1000 \<rparr>)] \<rparr> \<rparr>,
    1)"
  by (simp add: BlockchainSDK_getTransactions_def getNetworkFromAddress_def detectNetwork_def
      example_keys_valid example_sdk_def example_clock_def TransactionCache_new_def
      MemoryCache_new_def or_default_def TransactionCache_get_def MemoryCache_get_def
      evictExpired_def Let_def getSolanaTransactions_def SolanaAdapter_getTransactions_def
      validateAddress_solana normalizeSolanaPublicKey_def options_or_empty_def echo_provider_def
      filterTransactions_def no_options_def TransactionCache_set_def MemoryCache_set_def
      evictOldest_def generateKey_def toLowerCase_def toLowerChar_def string_or_def)

lemma client_returns_other_keys_page:
  "fst (BlockchainSDK_getTransactions example_clock
          (fst (snd (BlockchainSDK_getTransactions example_clock example_sdk
                       ''9WzDXwBbmkg8ZTbNMqUxvQRAyrZzDsGYdLVL9zYtAWWM'' None 0)))
          ''9wzDXwBbmkg8ZTbNMqUxvQRAyrZzDsGYdLVL9zYtAWWM'' None 1) =
     Inr \<lparr> data = [\<lparr> hash = ''9WzDXwBbmkg8ZTbNMqUxvQRAyrZzDsGYdLVL9zYtAWWM'',
                     timestamp = 1609459200000, status = SUCCESS, network = SOLANA_MAINNET \<rparr>],
          pagination = \<lparr> total = None, page_number = None, totalPages = None,
                         nextCursor = None, hasMore = False \<rparr> \<rparr> \<and>
   snd (snd (BlockchainSDK_getTransactions example_clock
          (fst (snd (BlockchainSDK_getTransactions example_clock example_sdk
                       ''9WzDXwBbmkg8ZTbNMqUxvQRAyrZzDsGYdLVL9zYtAWWM'' None 0)))
          ''9wzDXwBbmkg8ZTbNMqUxvQRAyrZzDsGYdLVL9zYtAWWM'' None 1)) = 1"
  unfolding example_first_call
  by (simp add: BlockchainSDK_getTransactions_def getNetworkFromAddress_def detectNetwork_def
      example_keys_valid example_sdk_def example_clock_def TransactionCache_get_def
      MemoryCache_get_def evictExpired_def isExpired_def Let_def generateKey_def toLowerCase_def
      toLowerChar_def string_or_def)

end
